theory Spec2Isabelle
  imports Complex_Main "HOL-Library.Multiset"
begin

section \<open>Python values used by Cleaner.py\<close>

text \<open>
  The model follows \<^verbatim>\<open>src/Cleaner.py\<close> function by function and keeps its names.
  Python's unbounded integers are \<^typ>\<open>int\<close>; every exception the source can meet is a
  value of \<open>error\<close>, and a function that can raise returns \<open>error + 'a\<close>. \<open>OSError\<close>
  stands for an \<open>OSError\<close> that is neither \<open>FileNotFoundError\<close> nor \<open>PermissionError\<close>;
  \<open>SystemExit\<close> is what \<open>exit()\<close> raises; \<open>UnicodeDecodeError\<close> is a \<open>ValueError\<close> for
  an \<open>except\<close> clause, but not a \<open>JSONDecodeError\<close>.
\<close>

datatype error =
    EOFError | ValueError | OverflowError | KeyError | TypeError | AttributeError
  | ZeroDivisionError | OSError | FileNotFoundError | PermissionError | SystemExit
  | UnicodeDecodeError | RecursionError | IndexError

text \<open>
  A Python \<open>str\<close> is a sequence of Unicode code points, so a string is a list of integers:
  \<open>ustr\<close> gives the code points of a literal, and the characters the source names have a
  name here.
\<close>

type_synonym str = "int list"

definition ustr :: "string \<Rightarrow> str" where
  "ustr s = map of_char s"

abbreviation chr_newline :: int where "chr_newline \<equiv> 10"
abbreviation chr_space :: int where "chr_space \<equiv> 32"
abbreviation chr_plus :: int where "chr_plus \<equiv> 43"
abbreviation chr_minus :: int where "chr_minus \<equiv> 45"
abbreviation chr_dot :: int where "chr_dot \<equiv> 46"
abbreviation chr_slash :: int where "chr_slash \<equiv> 47"
abbreviation chr_question :: int where "chr_question \<equiv> 63"
abbreviation chr_backslash :: int where "chr_backslash \<equiv> 92"
abbreviation chr_underscore :: int where "chr_underscore \<equiv> 95"

section \<open>The character tables of \<open>str\<close>\<close>

text \<open>
  \<open>str.lower\<close>, \<open>str.strip\<close>, \<open>str.isdigit\<close> and \<open>int\<close> read the Unicode character
  database compiled into the interpreter. The tables below are those of Unicode 15.0.0, the
  version of CPython 3.12 (the first release that accepts the f-strings of the source),
  written as ranges of code points.
\<close>

definition in_ranges :: "int \<Rightarrow> (int \<times> int) list \<Rightarrow> bool" where
  "in_ranges c rs = list_ex (\<lambda>(lo, hi). lo \<le> c \<and> c \<le> hi) rs"

text \<open>The characters for which \<open>str.isspace\<close> holds; \<open>str.strip()\<close> removes them.\<close>

definition whitespace_ranges :: "(int \<times> int) list" where
  "whitespace_ranges = [
    (9, 13), (28, 32), (133, 133), (160, 160), (5760, 5760), (8192, 8202), (8232, 8233),
    (8239, 8239), (8287, 8287), (12288, 12288)]"


text \<open>The zero of every run of ten decimal digits: the character \<open>z + k\<close> has the decimal value \<open>k\<close>.\<close>

definition decimal_zeros :: "int list" where
  "decimal_zeros = [
    48, 1632, 1776, 1984, 2406, 2534, 2662, 2790, 2918, 3046, 3174, 3302, 3430, 3558, 3664,
    3792, 3872, 4160, 4240, 6112, 6160, 6470, 6608, 6784, 6800, 6992, 7088, 7232, 7248, 42528,
    43216, 43264, 43472, 43504, 43600, 44016, 65296, 66720, 68912, 69734, 69872, 69942, 70096,
    70384, 70736, 70864, 71248, 71360, 71472, 71904, 72016, 72784, 73040, 73120, 73552, 92768,
    92864, 93008, 120782, 120792, 120802, 120812, 120822, 123200, 123632, 124144, 125264, 130032]"

text \<open>The derived property \<open>Case_Ignorable\<close>.\<close>

definition case_ignorable_ranges :: "(int \<times> int) list" where
  "case_ignorable_ranges = [
    (39, 39), (46, 46), (58, 58), (94, 94), (96, 96), (168, 168), (173, 173), (175, 175),
    (180, 180), (183, 184), (688, 879), (884, 885), (890, 890), (900, 901), (903, 903),
    (1155, 1161), (1369, 1369), (1375, 1375), (1425, 1469), (1471, 1471), (1473, 1474),
    (1476, 1477), (1479, 1479), (1524, 1524), (1536, 1541), (1552, 1562), (1564, 1564),
    (1600, 1600), (1611, 1631), (1648, 1648), (1750, 1757), (1759, 1768), (1770, 1773),
    (1807, 1807), (1809, 1809), (1840, 1866), (1958, 1968), (2027, 2037), (2042, 2042),
    (2045, 2045), (2070, 2093), (2137, 2139), (2184, 2184), (2192, 2193), (2200, 2207),
    (2249, 2306), (2362, 2362), (2364, 2364), (2369, 2376), (2381, 2381), (2385, 2391),
    (2402, 2403), (2417, 2417), (2433, 2433), (2492, 2492), (2497, 2500), (2509, 2509),
    (2530, 2531), (2558, 2558), (2561, 2562), (2620, 2620), (2625, 2626), (2631, 2632),
    (2635, 2637), (2641, 2641), (2672, 2673), (2677, 2677), (2689, 2690), (2748, 2748),
    (2753, 2757), (2759, 2760), (2765, 2765), (2786, 2787), (2810, 2815), (2817, 2817),
    (2876, 2876), (2879, 2879), (2881, 2884), (2893, 2893), (2901, 2902), (2914, 2915),
    (2946, 2946), (3008, 3008), (3021, 3021), (3072, 3072), (3076, 3076), (3132, 3132),
    (3134, 3136), (3142, 3144), (3146, 3149), (3157, 3158), (3170, 3171), (3201, 3201),
    (3260, 3260), (3263, 3263), (3270, 3270), (3276, 3277), (3298, 3299), (3328, 3329),
    (3387, 3388), (3393, 3396), (3405, 3405), (3426, 3427), (3457, 3457), (3530, 3530),
    (3538, 3540), (3542, 3542), (3633, 3633), (3636, 3642), (3654, 3662), (3761, 3761),
    (3764, 3772), (3782, 3782), (3784, 3790), (3864, 3865), (3893, 3893), (3895, 3895),
    (3897, 3897), (3953, 3966), (3968, 3972), (3974, 3975), (3981, 3991), (3993, 4028),
    (4038, 4038), (4141, 4144), (4146, 4151), (4153, 4154), (4157, 4158), (4184, 4185),
    (4190, 4192), (4209, 4212), (4226, 4226), (4229, 4230), (4237, 4237), (4253, 4253),
    (4348, 4348), (4957, 4959), (5906, 5908), (5938, 5939), (5970, 5971), (6002, 6003),
    (6068, 6069), (6071, 6077), (6086, 6086), (6089, 6099), (6103, 6103), (6109, 6109),
    (6155, 6159), (6211, 6211), (6277, 6278), (6313, 6313), (6432, 6434), (6439, 6440),
    (6450, 6450), (6457, 6459), (6679, 6680), (6683, 6683), (6742, 6742), (6744, 6750),
    (6752, 6752), (6754, 6754), (6757, 6764), (6771, 6780), (6783, 6783), (6823, 6823),
    (6832, 6862), (6912, 6915), (6964, 6964), (6966, 6970), (6972, 6972), (6978, 6978),
    (7019, 7027), (7040, 7041), (7074, 7077), (7080, 7081), (7083, 7085), (7142, 7142),
    (7144, 7145), (7149, 7149), (7151, 7153), (7212, 7219), (7222, 7223), (7288, 7293),
    (7376, 7378), (7380, 7392), (7394, 7400), (7405, 7405), (7412, 7412), (7416, 7417),
    (7468, 7530), (7544, 7544), (7579, 7679), (8125, 8125), (8127, 8129), (8141, 8143),
    (8157, 8159), (8173, 8175), (8189, 8190), (8203, 8207), (8216, 8217), (8228, 8228),
    (8231, 8231), (8234, 8238), (8288, 8292), (8294, 8303), (8305, 8305), (8319, 8319),
    (8336, 8348), (8400, 8432), (11388, 11389), (11503, 11505), (11631, 11631), (11647, 11647),
    (11744, 11775), (11823, 11823), (12293, 12293), (12330, 12333), (12337, 12341),
    (12347, 12347), (12441, 12446), (12540, 12542), (40981, 40981), (42232, 42237),
    (42508, 42508), (42607, 42610), (42612, 42621), (42623, 42623), (42652, 42655),
    (42736, 42737), (42752, 42785), (42864, 42864), (42888, 42890), (42994, 42996),
    (43000, 43001), (43010, 43010), (43014, 43014), (43019, 43019), (43045, 43046),
    (43052, 43052), (43204, 43205), (43232, 43249), (43263, 43263), (43302, 43309),
    (43335, 43345), (43392, 43394), (43443, 43443), (43446, 43449), (43452, 43453),
    (43471, 43471), (43493, 43494), (43561, 43566), (43569, 43570), (43573, 43574),
    (43587, 43587), (43596, 43596), (43632, 43632), (43644, 43644), (43696, 43696),
    (43698, 43700), (43703, 43704), (43710, 43711), (43713, 43713), (43741, 43741),
    (43756, 43757), (43763, 43764), (43766, 43766), (43867, 43871), (43881, 43883),
    (44005, 44005), (44008, 44008), (44013, 44013), (64286, 64286), (64434, 64450),
    (65024, 65039), (65043, 65043), (65056, 65071), (65106, 65106), (65109, 65109),
    (65279, 65279), (65287, 65287), (65294, 65294), (65306, 65306), (65342, 65342),
    (65344, 65344), (65392, 65392), (65438, 65439), (65507, 65507), (65529, 65531),
    (66045, 66045), (66272, 66272), (66422, 66426), (67456, 67461), (67463, 67504),
    (67506, 67514), (68097, 68099), (68101, 68102), (68108, 68111), (68152, 68154),
    (68159, 68159), (68325, 68326), (68900, 68903), (69291, 69292), (69373, 69375),
    (69446, 69456), (69506, 69509), (69633, 69633), (69688, 69702), (69744, 69744),
    (69747, 69748), (69759, 69761), (69811, 69814), (69817, 69818), (69821, 69821),
    (69826, 69826), (69837, 69837), (69888, 69890), (69927, 69931), (69933, 69940),
    (70003, 70003), (70016, 70017), (70070, 70078), (70089, 70092), (70095, 70095),
    (70191, 70193), (70196, 70196), (70198, 70199), (70206, 70206), (70209, 70209),
    (70367, 70367), (70371, 70378), (70400, 70401), (70459, 70460), (70464, 70464),
    (70502, 70508), (70512, 70516), (70712, 70719), (70722, 70724), (70726, 70726),
    (70750, 70750), (70835, 70840), (70842, 70842), (70847, 70848), (70850, 70851),
    (71090, 71093), (71100, 71101), (71103, 71104), (71132, 71133), (71219, 71226),
    (71229, 71229), (71231, 71232), (71339, 71339), (71341, 71341), (71344, 71349),
    (71351, 71351), (71453, 71455), (71458, 71461), (71463, 71467), (71727, 71735),
    (71737, 71738), (71995, 71996), (71998, 71998), (72003, 72003), (72148, 72151),
    (72154, 72155), (72160, 72160), (72193, 72202), (72243, 72248), (72251, 72254),
    (72263, 72263), (72273, 72278), (72281, 72283), (72330, 72342), (72344, 72345),
    (72752, 72758), (72760, 72765), (72767, 72767), (72850, 72871), (72874, 72880),
    (72882, 72883), (72885, 72886), (73009, 73014), (73018, 73018), (73020, 73021),
    (73023, 73029), (73031, 73031), (73104, 73105), (73109, 73109), (73111, 73111),
    (73459, 73460), (73472, 73473), (73526, 73530), (73536, 73536), (73538, 73538),
    (78896, 78912), (78919, 78933), (92912, 92916), (92976, 92982), (92992, 92995),
    (94031, 94031), (94095, 94111), (94176, 94177), (94179, 94180), (110576, 110579),
    (110581, 110587), (110589, 110590), (113821, 113822), (113824, 113827), (118528, 118573),
    (118576, 118598), (119143, 119145), (119155, 119170), (119173, 119179), (119210, 119213),
    (119362, 119364), (121344, 121398), (121403, 121452), (121461, 121461), (121476, 121476),
    (121499, 121503), (121505, 121519), (122880, 122886), (122888, 122904), (122907, 122913),
    (122915, 122916), (122918, 122922), (122928, 122989), (123023, 123023), (123184, 123197),
    (123566, 123566), (123628, 123631), (124139, 124143), (125136, 125142), (125252, 125259),
    (127995, 127999), (917505, 917505), (917536, 917631), (917760, 917999)]"

text \<open>The derived property \<open>Cased\<close>.\<close>

definition cased_ranges :: "(int \<times> int) list" where
  "cased_ranges = [
    (65, 90), (97, 122), (170, 170), (181, 181), (186, 186), (192, 214), (216, 246),
    (248, 442), (444, 447), (452, 659), (661, 696), (704, 705), (736, 740), (837, 837),
    (880, 883), (886, 887), (890, 893), (895, 895), (902, 902), (904, 906), (908, 908),
    (910, 929), (931, 1013), (1015, 1153), (1162, 1327), (1329, 1366), (1376, 1416),
    (4256, 4293), (4295, 4295), (4301, 4301), (4304, 4346), (4348, 4351), (5024, 5109),
    (5112, 5117), (7296, 7304), (7312, 7354), (7357, 7359), (7424, 7615), (7680, 7957),
    (7960, 7965), (7968, 8005), (8008, 8013), (8016, 8023), (8025, 8025), (8027, 8027),
    (8029, 8029), (8031, 8061), (8064, 8116), (8118, 8124), (8126, 8126), (8130, 8132),
    (8134, 8140), (8144, 8147), (8150, 8155), (8160, 8172), (8178, 8180), (8182, 8188),
    (8305, 8305), (8319, 8319), (8336, 8348), (8450, 8450), (8455, 8455), (8458, 8467),
    (8469, 8469), (8473, 8477), (8484, 8484), (8486, 8486), (8488, 8488), (8490, 8493),
    (8495, 8500), (8505, 8505), (8508, 8511), (8517, 8521), (8526, 8526), (8544, 8575),
    (8579, 8580), (9398, 9449), (11264, 11492), (11499, 11502), (11506, 11507), (11520, 11557),
    (11559, 11559), (11565, 11565), (42560, 42605), (42624, 42653), (42786, 42887),
    (42891, 42894), (42896, 42954), (42960, 42961), (42963, 42963), (42965, 42969),
    (42994, 42998), (43000, 43002), (43824, 43866), (43868, 43881), (43888, 43967),
    (64256, 64262), (64275, 64279), (65313, 65338), (65345, 65370), (66560, 66639),
    (66736, 66771), (66776, 66811), (66928, 66938), (66940, 66954), (66956, 66962),
    (66964, 66965), (66967, 66977), (66979, 66993), (66995, 67001), (67003, 67004),
    (67456, 67456), (67459, 67461), (67463, 67504), (67506, 67514), (68736, 68786),
    (68800, 68850), (71840, 71903), (93760, 93823), (119808, 119892), (119894, 119964),
    (119966, 119967), (119970, 119970), (119973, 119974), (119977, 119980), (119982, 119993),
    (119995, 119995), (119997, 120003), (120005, 120069), (120071, 120074), (120077, 120084),
    (120086, 120092), (120094, 120121), (120123, 120126), (120128, 120132), (120134, 120134),
    (120138, 120144), (120146, 120485), (120488, 120512), (120514, 120538), (120540, 120570),
    (120572, 120596), (120598, 120628), (120630, 120654), (120656, 120686), (120688, 120712),
    (120714, 120744), (120746, 120770), (120772, 120779), (122624, 122633), (122635, 122654),
    (122661, 122666), (122928, 122989), (125184, 125251), (127280, 127305), (127312, 127337),
    (127344, 127369)]"

text \<open>The lower-case mapping of single characters, in runs \<open>(lo, hi, step, target)\<close>: every
  character \<open>lo + k * step\<close> up to \<open>hi\<close> maps to \<open>target + k * step\<close>. U+0130 and U+03A3
  are not in the table; \<open>str.lower\<close> treats them apart.\<close>

definition lower_runs :: "(int \<times> int \<times> int \<times> int) list" where
  "lower_runs = [
    (65, 90, 1, 97), (192, 214, 1, 224), (216, 222, 1, 248), (256, 302, 2, 257),
    (306, 310, 2, 307), (313, 327, 2, 314), (330, 374, 2, 331), (376, 376, 1, 255),
    (377, 381, 2, 378), (385, 385, 1, 595), (386, 388, 2, 387), (390, 390, 1, 596),
    (391, 391, 1, 392), (393, 394, 1, 598), (395, 395, 1, 396), (398, 398, 1, 477),
    (399, 399, 1, 601), (400, 400, 1, 603), (401, 401, 1, 402), (403, 403, 1, 608),
    (404, 404, 1, 611), (406, 406, 1, 617), (407, 407, 1, 616), (408, 408, 1, 409),
    (412, 412, 1, 623), (413, 413, 1, 626), (415, 415, 1, 629), (416, 420, 2, 417),
    (422, 422, 1, 640), (423, 423, 1, 424), (425, 425, 1, 643), (428, 428, 1, 429),
    (430, 430, 1, 648), (431, 431, 1, 432), (433, 434, 1, 650), (435, 437, 2, 436),
    (439, 439, 1, 658), (440, 440, 1, 441), (444, 444, 1, 445), (452, 452, 1, 454),
    (453, 453, 1, 454), (455, 455, 1, 457), (456, 456, 1, 457), (458, 458, 1, 460),
    (459, 475, 2, 460), (478, 494, 2, 479), (497, 497, 1, 499), (498, 500, 2, 499),
    (502, 502, 1, 405), (503, 503, 1, 447), (504, 542, 2, 505), (544, 544, 1, 414),
    (546, 562, 2, 547), (570, 570, 1, 11365), (571, 571, 1, 572), (573, 573, 1, 410),
    (574, 574, 1, 11366), (577, 577, 1, 578), (579, 579, 1, 384), (580, 580, 1, 649),
    (581, 581, 1, 652), (582, 590, 2, 583), (880, 882, 2, 881), (886, 886, 1, 887),
    (895, 895, 1, 1011), (902, 902, 1, 940), (904, 906, 1, 941), (908, 908, 1, 972),
    (910, 911, 1, 973), (913, 929, 1, 945), (932, 939, 1, 964), (975, 975, 1, 983),
    (984, 1006, 2, 985), (1012, 1012, 1, 952), (1015, 1015, 1, 1016), (1017, 1017, 1, 1010),
    (1018, 1018, 1, 1019), (1021, 1023, 1, 891), (1024, 1039, 1, 1104), (1040, 1071, 1, 1072),
    (1120, 1152, 2, 1121), (1162, 1214, 2, 1163), (1216, 1216, 1, 1231), (1217, 1229, 2, 1218),
    (1232, 1326, 2, 1233), (1329, 1366, 1, 1377), (4256, 4293, 1, 11520),
    (4295, 4295, 1, 11559), (4301, 4301, 1, 11565), (5024, 5103, 1, 43888),
    (5104, 5109, 1, 5112), (7312, 7354, 1, 4304), (7357, 7359, 1, 4349), (7680, 7828, 2, 7681),
    (7838, 7838, 1, 223), (7840, 7934, 2, 7841), (7944, 7951, 1, 7936), (7960, 7965, 1, 7952),
    (7976, 7983, 1, 7968), (7992, 7999, 1, 7984), (8008, 8013, 1, 8000), (8025, 8031, 2, 8017),
    (8040, 8047, 1, 8032), (8072, 8079, 1, 8064), (8088, 8095, 1, 8080), (8104, 8111, 1, 8096),
    (8120, 8121, 1, 8112), (8122, 8123, 1, 8048), (8124, 8124, 1, 8115), (8136, 8139, 1, 8050),
    (8140, 8140, 1, 8131), (8152, 8153, 1, 8144), (8154, 8155, 1, 8054), (8168, 8169, 1, 8160),
    (8170, 8171, 1, 8058), (8172, 8172, 1, 8165), (8184, 8185, 1, 8056), (8186, 8187, 1, 8060),
    (8188, 8188, 1, 8179), (8486, 8486, 1, 969), (8490, 8490, 1, 107), (8491, 8491, 1, 229),
    (8498, 8498, 1, 8526), (8544, 8559, 1, 8560), (8579, 8579, 1, 8580), (9398, 9423, 1, 9424),
    (11264, 11311, 1, 11312), (11360, 11360, 1, 11361), (11362, 11362, 1, 619),
    (11363, 11363, 1, 7549), (11364, 11364, 1, 637), (11367, 11371, 2, 11368),
    (11373, 11373, 1, 593), (11374, 11374, 1, 625), (11375, 11375, 1, 592),
    (11376, 11376, 1, 594), (11378, 11378, 1, 11379), (11381, 11381, 1, 11382),
    (11390, 11391, 1, 575), (11392, 11490, 2, 11393), (11499, 11501, 2, 11500),
    (11506, 11506, 1, 11507), (42560, 42604, 2, 42561), (42624, 42650, 2, 42625),
    (42786, 42798, 2, 42787), (42802, 42862, 2, 42803), (42873, 42875, 2, 42874),
    (42877, 42877, 1, 7545), (42878, 42886, 2, 42879), (42891, 42891, 1, 42892),
    (42893, 42893, 1, 613), (42896, 42898, 2, 42897), (42902, 42920, 2, 42903),
    (42922, 42922, 1, 614), (42923, 42923, 1, 604), (42924, 42924, 1, 609),
    (42925, 42925, 1, 620), (42926, 42926, 1, 618), (42928, 42928, 1, 670),
    (42929, 42929, 1, 647), (42930, 42930, 1, 669), (42931, 42931, 1, 43859),
    (42932, 42946, 2, 42933), (42948, 42948, 1, 42900), (42949, 42949, 1, 642),
    (42950, 42950, 1, 7566), (42951, 42953, 2, 42952), (42960, 42960, 1, 42961),
    (42966, 42968, 2, 42967), (42997, 42997, 1, 42998), (65313, 65338, 1, 65345),
    (66560, 66599, 1, 66600), (66736, 66771, 1, 66776), (66928, 66938, 1, 66967),
    (66940, 66954, 1, 66979), (66956, 66962, 1, 66995), (66964, 66965, 1, 67003),
    (68736, 68786, 1, 68800), (71840, 71871, 1, 71872), (93760, 93791, 1, 93792),
    (125184, 125217, 1, 125218)]"

definition is_whitespace :: "int \<Rightarrow> bool" where
  "is_whitespace c = in_ranges c whitespace_ranges"


definition is_case_ignorable :: "int \<Rightarrow> bool" where
  "is_case_ignorable c = in_ranges c case_ignorable_ranges"

definition is_cased :: "int \<Rightarrow> bool" where
  "is_cased c = in_ranges c cased_ranges"

definition to_decimal_digit :: "int \<Rightarrow> int option" where
  "to_decimal_digit c =
     (case find (\<lambda>z. z \<le> c \<and> c \<le> z + 9) decimal_zeros of
        None \<Rightarrow> None
      | Some z \<Rightarrow> Some (c - z))"

definition in_run :: "int \<Rightarrow> int \<times> int \<times> int \<times> int \<Rightarrow> bool" where
  "in_run c r = (case r of (lo, hi, step, target) \<Rightarrow>
     lo \<le> c \<and> c \<le> hi \<and> (c - lo) mod step = 0)"

text \<open>The full lower-case mapping of one character: U+0130 is the only character whose
  lower case has two characters.\<close>

definition to_lower_full :: "int \<Rightarrow> str" where
  "to_lower_full c =
     (if c = 304 then [105, 775]
      else (case find (in_run c) lower_runs of
              None \<Rightarrow> [c]
            | Some (lo, hi, step, target) \<Rightarrow> [target + (c - lo)]))"

subsection \<open>Strings: \<open>lower\<close>, \<open>strip\<close>, \<open>split\<close>, \<open>isdigit\<close>\<close>

text \<open>
  \<open>str.lower\<close> maps every character by \<open>to_lower_full\<close>, except the capital sigma
  U+03A3, which becomes the final sigma U+03C2 when a cased character stands before it and
  none after it, case-ignorable characters skipped, and the small sigma U+03C3 otherwise.
  \<open>before\<close> holds the characters already read, the nearest first.
\<close>

definition final_sigma :: "str \<Rightarrow> str \<Rightarrow> bool" where
  "final_sigma before after =
     ((case dropWhile is_case_ignorable before of [] \<Rightarrow> False | c # cs \<Rightarrow> is_cased c) \<and>
      (case dropWhile is_case_ignorable after of [] \<Rightarrow> True | c # cs \<Rightarrow> \<not> is_cased c))"

fun lower_from :: "str \<Rightarrow> str \<Rightarrow> str" where
  "lower_from before [] = []"
| "lower_from before (c # after) =
     (if c = 931 then [if final_sigma before after then 962 else 963] else to_lower_full c)
     @ lower_from (c # before) after"

definition py_lower :: "str \<Rightarrow> str" where
  "py_lower s = lower_from [] s"

definition py_strip :: "str \<Rightarrow> str" where
  "py_strip s = rev (dropWhile is_whitespace (rev (dropWhile is_whitespace s)))"

text \<open>\<open>s.split(sep)\<close> for a separator of one character: \<open>cur\<close> is the piece being read.
  The result is never empty, so \<open>[-1]\<close> on it never raises.\<close>

fun split_char :: "int \<Rightarrow> str \<Rightarrow> str \<Rightarrow> str list" where
  "split_char sep cur [] = [cur]"
| "split_char sep cur (c # cs) =
     (if c = sep then cur # split_char sep [] cs else split_char sep (cur @ [c]) cs)"

definition py_split :: "int \<Rightarrow> str \<Rightarrow> str list" where
  "py_split sep s = split_char sep [] s"



section \<open>Filter predicate: \<open>get_file_by_format\<close>\<close>

text \<open>
  The pattern is \<^verbatim>\<open>\.([^./\\]{1,10})$\<close>, used with \<open>re.search\<close>. \<open>ext_char\<close> is the
  character class, \<open>at_end\<close> is \<open>$\<close> (the end of the string, or just before one newline
  that ends it), \<open>try_lengths\<close> is the greedy repetition backing off from the longest run,
  \<open>match_here\<close> is a match attempt right after a dot and \<open>search_extension\<close> tries
  the start positions from the left; its result is \<open>group(1)\<close>.
\<close>

definition ext_char :: "int \<Rightarrow> bool" where
  "ext_char c = (c \<noteq> chr_dot \<and> c \<noteq> chr_slash \<and> c \<noteq> chr_backslash)"

definition at_end :: "str \<Rightarrow> bool" where
  "at_end r = (r = [] \<or> r = [chr_newline])"

fun try_lengths :: "nat \<Rightarrow> str \<Rightarrow> str option" where
  "try_lengths 0 r = None"
| "try_lengths (Suc k) r =
     (if at_end (drop (Suc k) r) then Some (take (Suc k) r) else try_lengths k r)"

definition match_here :: "str \<Rightarrow> str option" where
  "match_here r = try_lengths (min 10 (length (takeWhile ext_char r))) r"

fun search_extension :: "str \<Rightarrow> str option" where
  "search_extension [] = None"
| "search_extension (c # cs) =
     (if c = chr_dot then
        (case match_here cs of Some e \<Rightarrow> Some e | None \<Rightarrow> search_extension cs)
      else search_extension cs)"

text \<open>\<open>file_formats\<close> is the string \<open>'all'\<close> or a tuple of extensions.\<close>

datatype file_formats = All | Formats "str list"

definition get_file_by_format :: "str \<Rightarrow> file_formats \<Rightarrow> bool \<Rightarrow> bool" where
  "get_file_by_format file ff inversion =
     (case ff of
        All \<Rightarrow> True
      | Formats fs \<Rightarrow>
          (case search_extension file of
             None \<Rightarrow> False
           | Some extension \<Rightarrow>
               (let boolean = (extension \<in> set fs)
                in if inversion then \<not> boolean else boolean)))"

section \<open>User input: \<open>get_valid_choice\<close> and \<open>input_file_format\<close>\<close>






section \<open>Scanning: \<open>get_information_about_files\<close>, \<open>get_all_files\<close>, \<open>get_all_files_windows\<close>\<close>

text \<open>
  The directory tree is static during a scan. \<open>os.walk(path)\<close> yields one
  \<open>(root, dirs, files)\<close> triple per directory; the scanners ignore \<open>dirs\<close>, so a walk is
  the list of its \<open>(root, files)\<close> pairs. \<open>os.path.exists\<close> and \<open>os.path.getsize\<close> both
  read \<open>os.stat\<close>: the file system is a function giving each path the size \<open>stat\<close>
  reports, or \<open>None\<close> where \<open>stat\<close> fails. \<open>os.path.join\<close> is the platform's and is a
  parameter; \<open>posix_join\<close> is the one of \<open>posixpath\<close>.
\<close>

type_synonym walk = "(str \<times> str list) list"

record os_model =
  path_join :: "str \<Rightarrow> str \<Rightarrow> str"
  stat_size :: "str \<Rightarrow> int option"

definition posix_join :: "str \<Rightarrow> str \<Rightarrow> str" where
  "posix_join a b =
     (if b \<noteq> [] \<and> hd b = chr_slash then b
      else if a = [] \<or> last a = chr_slash then a @ b
      else a @ [chr_slash] @ b)"

definition path_exists :: "os_model \<Rightarrow> str \<Rightarrow> bool" where
  "path_exists os p = (stat_size os p \<noteq> None)"

definition getsize :: "os_model \<Rightarrow> str \<Rightarrow> error + int" where
  "getsize os p = (case stat_size os p of None \<Rightarrow> Inl OSError | Some n \<Rightarrow> Inr n)"

text \<open>\<open>filter_by_size\<close> is falsy (\<open>None\<close> here) or the validated pair \<open>[min, max]\<close>.\<close>

definition size_passes :: "(int \<times> int) option \<Rightarrow> int \<Rightarrow> bool" where
  "size_passes filter_by_size file_size =
     (case filter_by_size of
        None \<Rightarrow> True
      | Some (lo, hi) \<Rightarrow> lo \<le> file_size \<and> file_size \<le> hi)"

text \<open>The three results a scanner builds: \<open>total_size\<close>, \<open>files_and_size\<close> and
  \<open>list_of_full_file_paths\<close>.\<close>

type_synonym scan = "int \<times> (str \<times> int) list \<times> str list"

text \<open>The body of the inner loop, the same text in both scanners.\<close>

definition scan_file ::
  "os_model \<Rightarrow> file_formats \<Rightarrow> bool \<Rightarrow> (int \<times> int) option \<Rightarrow> int \<Rightarrow> str \<Rightarrow> scan
     \<Rightarrow> error + scan" where
  "scan_file os ff inversion filter_by_size s full_file_path acc =
     (case acc of (total_size, files_and_size, list_of_full_file_paths) \<Rightarrow>
        if get_file_by_format full_file_path ff inversion \<and> path_exists os full_file_path then
          (let file_name = last (py_split s full_file_path) in
           case getsize os full_file_path of
             Inl e \<Rightarrow> Inl e
           | Inr file_size \<Rightarrow>
               if size_passes filter_by_size file_size then
                 Inr (total_size + file_size,
                      files_and_size @ [(file_name, file_size)],
                      list_of_full_file_paths @ [full_file_path])
               else Inr acc)
        else Inr acc)"

fun scan_files ::
  "os_model \<Rightarrow> file_formats \<Rightarrow> bool \<Rightarrow> (int \<times> int) option \<Rightarrow> int \<Rightarrow> str \<Rightarrow> str list
     \<Rightarrow> scan \<Rightarrow> error + scan" where
  "scan_files os ff inversion fbs s directory [] acc = Inr acc"
| "scan_files os ff inversion fbs s directory (file # files) acc =
     (case scan_file os ff inversion fbs s (path_join os directory file) acc of
        Inl e \<Rightarrow> Inl e
      | Inr acc' \<Rightarrow> scan_files os ff inversion fbs s directory files acc')"

fun scan_directories ::
  "os_model \<Rightarrow> file_formats \<Rightarrow> bool \<Rightarrow> (int \<times> int) option \<Rightarrow> int \<Rightarrow> walk \<Rightarrow> scan
     \<Rightarrow> error + scan" where
  "scan_directories os ff inversion fbs s [] acc = Inr acc"
| "scan_directories os ff inversion fbs s ((directory, files) # rest) acc =
     (case scan_files os ff inversion fbs s directory files acc of
        Inl e \<Rightarrow> Inl e
      | Inr acc' \<Rightarrow> scan_directories os ff inversion fbs s rest acc')"

definition get_information_about_files ::
  "os_model \<Rightarrow> file_formats \<Rightarrow> bool \<Rightarrow> (int \<times> int) option \<Rightarrow> int \<Rightarrow> walk \<Rightarrow> error + scan" where
  "get_information_about_files os ff inversion filter_by_size s directories_and_files =
     scan_directories os ff inversion filter_by_size s directories_and_files (0, [], [])"

definition get_all_files_windows ::
  "os_model \<Rightarrow> walk \<Rightarrow> file_formats \<Rightarrow> bool \<Rightarrow> (int \<times> int) option \<Rightarrow> int \<Rightarrow> error + scan" where
  "get_all_files_windows os walked ff inversion filter_by_size s =
     scan_directories os ff inversion filter_by_size s walked (0, [], [])"

text \<open>The partitioning loop of \<open>get_all_files\<close>: \<open>counter % num_cores\<close> raises
  \<open>ZeroDivisionError\<close> for no core.\<close>

fun distribute :: "nat \<Rightarrow> walk \<Rightarrow> nat \<Rightarrow> walk list \<Rightarrow> error + walk list" where
  "distribute num_cores [] counter tasks = Inr tasks"
| "distribute num_cores ((root_dir, files) # rest) counter tasks =
     (if num_cores = 0 then Inl ZeroDivisionError
      else (let task_number = counter mod num_cores
            in distribute num_cores rest (counter + 1)
                 (tasks[task_number := tasks ! task_number @ [(root_dir, files)]])))"

text \<open>The merge loop over \<open>executor.map\<close>'s results, which come in the order of the tasks;
  a worker's exception is raised when its result is reached.\<close>

fun merge_results :: "(error + scan) list \<Rightarrow> scan \<Rightarrow> error + scan" where
  "merge_results [] acc = Inr acc"
| "merge_results (Inl e # rest) acc = Inl e"
| "merge_results (Inr (x, y, z) # rest) (total_size, files_and_size, list_of_full_file_paths) =
     merge_results rest (total_size + x, files_and_size @ y, list_of_full_file_paths @ z)"

text \<open>\<open>num_cores\<close> is \<open>os.cpu_count()\<close>; \<open>ProcessPoolExecutor(max_workers=0)\<close> raises
  \<open>ValueError\<close>.\<close>

definition get_all_files ::
  "os_model \<Rightarrow> nat \<Rightarrow> walk \<Rightarrow> file_formats \<Rightarrow> bool \<Rightarrow> (int \<times> int) option \<Rightarrow> int \<Rightarrow> error + scan" where
  "get_all_files os num_cores walked ff inversion filter_by_size s =
     (case distribute num_cores walked 0 (replicate num_cores []) of
        Inl e \<Rightarrow> Inl e
      | Inr tasks \<Rightarrow>
          if num_cores = 0 then Inl ValueError
          else merge_results
                 (map (get_information_about_files os ff inversion filter_by_size s) tasks)
                 (0, [], []))"


section \<open>Reconciliation: \<open>get_information_about_deleted_files\<close>\<close>

text \<open>
  The loop probes every targeted path with \<open>os.path.getsize\<close> on the file system as it is
  after the delete pass. A probe that succeeds puts the path in \<open>not_deleted_files\<close> and
  takes the size it reads and one file off the totals; a probe that raises \<open>OSError\<close>
  puts the path in \<open>deleted_files\<close>.
\<close>

fun probe_files ::
  "os_model \<Rightarrow> str list \<Rightarrow> str list \<times> str list \<times> int \<times> int
     \<Rightarrow> str list \<times> str list \<times> int \<times> int" where
  "probe_files os [] acc = acc"
| "probe_files os (file # rest) (deleted_files, not_deleted_files, total_files, total_size) =
     (case getsize os file of
        Inr file_size \<Rightarrow>
          probe_files os rest
            (deleted_files, not_deleted_files @ [file], total_files - 1, total_size - file_size)
      | Inl e \<Rightarrow>
          probe_files os rest (deleted_files @ [file], not_deleted_files, total_files, total_size))"

definition get_information_about_deleted_files ::
  "os_model \<Rightarrow> str list \<Rightarrow> int \<Rightarrow> str list \<times> str list \<times> int \<times> int" where
  "get_information_about_deleted_files os list_of_files total_size =
     probe_files os list_of_files ([], [], int (length list_of_files), total_size)"


section \<open>Persisted state: JSON values, \<open>get_json_content\<close>, \<open>check_settings\<close>\<close>

text \<open>
  What \<open>json.loads\<close> returns. A float is kept as a rational; \<open>NaN\<close> and the infinities
  that \<open>loads\<close> also accepts behave in every test below as a non-zero float does. A
  dictionary is the list of its items, in insertion order, with distinct keys; an integer
  has at most 4300 digits.
\<close>

datatype json =
    JNull | JBool bool | JInt int | JFloat rat | JStr str
  | JList "json list" | JDict "(str \<times> json) list"

type_synonym pydict = "(str \<times> json) list"

text \<open>\<open>not x\<close> is the negation of \<open>truthy x\<close>.\<close>

fun truthy :: "json \<Rightarrow> bool" where
  "truthy JNull = False"
| "truthy (JBool b) = b"
| "truthy (JInt n) = (n \<noteq> 0)"
| "truthy (JFloat r) = (r \<noteq> 0)"
| "truthy (JStr s) = (s \<noteq> [])"
| "truthy (JList xs) = (xs \<noteq> [])"
| "truthy (JDict d) = (d \<noteq> [])"

text \<open>\<open>isinstance(x, int)\<close> holds for a \<open>bool\<close> too, and \<open>int_value\<close> is the number it
  compares and adds as.\<close>

fun isinstance_int :: "json \<Rightarrow> bool" where
  "isinstance_int (JInt n) = True"
| "isinstance_int (JBool b) = True"
| "isinstance_int x = False"

fun isinstance_bool :: "json \<Rightarrow> bool" where
  "isinstance_bool (JBool b) = True"
| "isinstance_bool x = False"

fun isinstance_list :: "json \<Rightarrow> bool" where
  "isinstance_list (JList xs) = True"
| "isinstance_list x = False"

fun int_value :: "json \<Rightarrow> int" where
  "int_value (JInt n) = n"
| "int_value (JBool b) = (if b then 1 else 0)"
| "int_value x = 0"

text \<open>\<open>x in (False, 'alphabet', 'size')\<close>: the comparison with \<open>False\<close> is \<open>==\<close>, which
  the numbers \<open>0\<close> and \<open>0.0\<close> pass as well.\<close>

fun equals_False :: "json \<Rightarrow> bool" where
  "equals_False (JBool b) = (\<not> b)"
| "equals_False (JInt n) = (n = 0)"
| "equals_False (JFloat r) = (r = 0)"
| "equals_False x = False"

definition is_sorting_choice :: "json \<Rightarrow> bool" where
  "is_sorting_choice x = (equals_False x \<or> x = JStr (ustr ''alphabet'') \<or> x = JStr (ustr ''size''))"

definition dict_get :: "pydict \<Rightarrow> str \<Rightarrow> error + json" where
  "dict_get d k = (case map_of d k of None \<Rightarrow> Inl KeyError | Some v \<Rightarrow> Inr v)"

fun dict_set :: "pydict \<Rightarrow> str \<Rightarrow> json \<Rightarrow> pydict" where
  "dict_set [] k v = [(k, v)]"
| "dict_set ((k', v') # d) k v = (if k' = k then (k, v) # d else (k', v') # dict_set d k v)"

definition has_key :: "pydict \<Rightarrow> str \<Rightarrow> bool" where
  "has_key d k = (k \<in> set (map fst d))"

text \<open>Sequencing of two steps, the first of which may raise.\<close>

definition and_then :: "error + 'a \<Rightarrow> ('a \<Rightarrow> error + 'b) \<Rightarrow> error + 'b" where
  "and_then r f = (case r of Inl e \<Rightarrow> Inl e | Inr x \<Rightarrow> f x)"

text \<open>
  What opening, reading and decoding the file gives: \<open>FileNotFoundError\<close>
  (\<open>FileMissing\<close>), a \<open>JSONDecodeError\<close> (\<open>DecodeFails\<close>), the decoded value, or
  another exception (\<open>Raises\<close>): a \<open>PermissionError\<close> of \<open>open\<close>, the
  \<open>UnicodeDecodeError\<close> of \<open>read\<close> for bytes that are not text, and of \<open>loads\<close> the
  \<open>RecursionError\<close> for a deep nesting and the \<open>ValueError\<close> for an integer of more
  than 4300 digits. \<open>get_json_content\<close> catches the first two only.
\<close>

datatype file_content = FileMissing | DecodeFails | Raises error | Decoded json

definition get_json_content :: "file_content \<Rightarrow> pydict \<Rightarrow> error + (pydict \<times> pydict)" where
  "get_json_content file default_config =
     (case file of
        Decoded (JDict content) \<Rightarrow> Inr (content, default_config)
      | Decoded other \<Rightarrow> Inr (default_config, default_config)
      | FileMissing \<Rightarrow> Inr (default_config, default_config)
      | DecodeFails \<Rightarrow> Inr (default_config, default_config)
      | Raises e \<Rightarrow> Inl e)"

definition default_settings :: pydict where
  "default_settings =
     [(ustr ''paths'', JList []), (ustr ''sorting'', JBool False), (ustr ''output_files'', JBool False),
      (ustr ''output_extensions'', JBool False), (ustr ''filter_by_size'', JBool False),
      (ustr ''indicator_output'', JBool False), (ustr ''cleaned_files_report'', JBool False)]"

definition valid_size_filter :: "json \<Rightarrow> bool" where
  "valid_size_filter filter_by_size =
     (\<not> truthy filter_by_size \<or>
      (case filter_by_size of
         JList [lo, hi] \<Rightarrow>
           isinstance_int lo \<and> isinstance_int hi \<and>
           int_value hi > int_value lo \<and> int_value lo \<ge> 0 \<and> int_value hi > 0
       | other \<Rightarrow> False))"

definition check_settings :: "pydict \<Rightarrow> pydict \<Rightarrow> error + pydict" where
  "check_settings settings default_config =
     (if length settings \<noteq> 7 \<or>
         \<not> has_key settings (ustr ''paths'') \<or>
         \<not> has_key settings (ustr ''sorting'') \<or>
         \<not> has_key settings (ustr ''output_files'') \<or>
         \<not> has_key settings (ustr ''output_extensions'') \<or>
         \<not> has_key settings (ustr ''filter_by_size'') \<or>
         \<not> has_key settings (ustr ''indicator_output'') \<or>
         \<not> has_key settings (ustr ''cleaned_files_report'')
      then Inr default_config
      else
        and_then (dict_get settings (ustr ''paths'')) (\<lambda>paths.
        and_then (dict_get settings (ustr ''sorting'')) (\<lambda>sorting.
        and_then (dict_get settings (ustr ''output_files'')) (\<lambda>output_files.
        and_then (dict_get settings (ustr ''output_extensions'')) (\<lambda>output_extensions.
        and_then (dict_get settings (ustr ''indicator_output'')) (\<lambda>indicator_output.
        and_then (dict_get settings (ustr ''cleaned_files_report'')) (\<lambda>cleaned_files_report.
          if \<not> isinstance_list paths \<or>
             \<not> is_sorting_choice sorting \<or>
             \<not> isinstance_bool output_files \<or>
             \<not> isinstance_bool output_extensions \<or>
             \<not> isinstance_bool indicator_output \<or>
             \<not> isinstance_bool cleaned_files_report
          then Inr default_config
          else
            and_then (dict_get settings (ustr ''filter_by_size'')) (\<lambda>filter_by_size.
              if \<not> valid_size_filter filter_by_size then Inr default_config
              else Inr settings))))))))"


section \<open>History record: \<open>is_valid_dates\<close>, \<open>check_data\<close>, \<open>save_and_display_cleanup_info\<close>\<close>

subsection \<open>\<open>int(s)\<close> on a string\<close>

text \<open>
  \<open>int\<close> first rewrites the string to ASCII: a character below 127 stays, a white-space
  character becomes a space, a decimal digit of any script becomes the ASCII digit of its
  value, and at any other character the rewriting stops with a question mark. In the
  result it skips the white space of C (tab to carriage return, and the space) on both
  sides, takes one sign, then decimal digits in which single underscores may stand between
  two digits; anything else is \<open>ValueError\<close> (\<open>None\<close> here), as is a literal of more than
  4300 digits.
\<close>

fun to_ascii :: "str \<Rightarrow> str" where
  "to_ascii [] = []"
| "to_ascii (c # cs) =
     (if c < 127 then c # to_ascii cs
      else if is_whitespace c then chr_space # to_ascii cs
      else (case to_decimal_digit c of
              None \<Rightarrow> [chr_question]
            | Some d \<Rightarrow> (48 + d) # to_ascii cs))"

definition is_c_space :: "int \<Rightarrow> bool" where
  "is_c_space c = ((9 \<le> c \<and> c \<le> 13) \<or> c = chr_space)"

definition ascii_digit :: "int \<Rightarrow> bool" where
  "ascii_digit c = (48 \<le> c \<and> c \<le> 57)"

definition digit_value :: "int \<Rightarrow> int" where
  "digit_value c = c - 48"

fun digits_value :: "int \<Rightarrow> str \<Rightarrow> int option" where
  "digits_value acc [] = Some acc"
| "digits_value acc [c] = (if ascii_digit c then Some (acc * 10 + digit_value c) else None)"
| "digits_value acc (c # d # cs) =
     (if ascii_digit c then digits_value (acc * 10 + digit_value c) (d # cs)
      else if c = chr_underscore \<and> ascii_digit d then digits_value (acc * 10 + digit_value d) cs
      else None)"

definition unsigned_value :: "str \<Rightarrow> int option" where
  "unsigned_value s =
     (case s of
        [] \<Rightarrow> None
      | c # cs \<Rightarrow>
          if ascii_digit c \<and> length (filter ascii_digit s) \<le> 4300
          then digits_value (digit_value c) cs else None)"

definition py_int :: "str \<Rightarrow> int option" where
  "py_int s =
     (case rev (dropWhile is_c_space (rev (dropWhile is_c_space (to_ascii s)))) of
        [] \<Rightarrow> None
      | c # cs \<Rightarrow>
          if c = chr_plus then unsigned_value cs
          else if c = chr_minus then map_option uminus (unsigned_value cs)
          else unsigned_value (c # cs))"

text \<open>\<open>str(n)\<close>, and \<open>n\<close> in an f-string or in \<open>json.dump\<close>, raise \<open>ValueError\<close> for an
  integer of more than 4300 digits. \<open>digit_count\<close> counts the decimal digits of a
  number that is not negative.\<close>

function digit_count :: "int \<Rightarrow> int" where
  "digit_count n = (if n < 10 then 1 else 1 + digit_count (n div 10))"
  by pat_completeness auto

termination
  by (relation "measure nat") auto

declare digit_count.simps [simp del]

definition int_to_str :: "int \<Rightarrow> error + unit" where
  "int_to_str n = (if digit_count \<bar>n\<bar> \<le> 4300 then Inr () else Inl ValueError)"

subsection \<open>\<open>datetime.date\<close>\<close>

datatype date = Date (year: int) (month: int) (day: int)

definition is_leap :: "int \<Rightarrow> bool" where
  "is_leap y = (y mod 4 = 0 \<and> (y mod 100 \<noteq> 0 \<or> y mod 400 = 0))"

definition days_in_month :: "int \<Rightarrow> int \<Rightarrow> int" where
  "days_in_month y m =
     (if m = 2 then (if is_leap y then 29 else 28)
      else if m = 4 \<or> m = 6 \<or> m = 9 \<or> m = 11 then 30 else 31)"

definition fits_c_int :: "int \<Rightarrow> bool" where
  "fits_c_int n = (- 2147483648 \<le> n \<and> n \<le> 2147483647)"

definition valid_date :: "date \<Rightarrow> bool" where
  "valid_date dt =
     (1 \<le> year dt \<and> year dt \<le> 9999 \<and> 1 \<le> month dt \<and> month dt \<le> 12 \<and>
      1 \<le> day dt \<and> day dt \<le> days_in_month (year dt) (month dt))"

text \<open>
  The constructor \<open>date(year, month, day)\<close> of CPython first converts each argument to a C
  \<open>int\<close> and raises \<open>OverflowError\<close> when one does not fit; only then does it check
  the ranges and raise \<open>ValueError\<close>.
\<close>

definition py_date :: "int \<Rightarrow> int \<Rightarrow> int \<Rightarrow> error + date" where
  "py_date y m d =
     (if \<not> fits_c_int y \<or> \<not> fits_c_int m \<or> \<not> fits_c_int d then Inl OverflowError
      else if valid_date (Date y m d) then Inr (Date y m d)
      else Inl ValueError)"

definition date_le :: "date \<Rightarrow> date \<Rightarrow> bool" where
  "date_le a b =
     (year a < year b \<or>
      (year a = year b \<and> (month a < month b \<or> (month a = month b \<and> day a \<le> day b))))"

text \<open>\<open>str(date)\<close> is the ISO form: four digits, two digits, two digits.\<close>

definition digit_char :: "int \<Rightarrow> int" where
  "digit_char n = 48 + n"

definition two_digits :: "int \<Rightarrow> str" where
  "two_digits n = [digit_char (n div 10), digit_char (n mod 10)]"

definition four_digits :: "int \<Rightarrow> str" where
  "four_digits n =
     [digit_char (n div 1000), digit_char (n div 100 mod 10),
      digit_char (n div 10 mod 10), digit_char (n mod 10)]"

definition str_of_date :: "date \<Rightarrow> str" where
  "str_of_date dt =
     four_digits (year dt) @ [chr_minus] @ two_digits (month dt) @ [chr_minus]
       @ two_digits (day dt)"

subsection \<open>\<open>is_valid_dates\<close> and \<open>check_data\<close>\<close>

text \<open>
  \<open>year, month, day = map(int, my_date.split('-'))\<close> on a string: every failure of
  \<open>int\<close> or of the unpacking into three names is a \<open>ValueError\<close>. \<open>date_of_string\<close>
  is that line followed by \<open>date(year, month, day)\<close>.
\<close>

definition int_fields :: "str \<Rightarrow> error + (int \<times> int \<times> int)" where
  "int_fields s =
     (case map py_int (py_split chr_minus s) of
        [Some y, Some m, Some d] \<Rightarrow> Inr (y, m, d)
      | other \<Rightarrow> Inl ValueError)"

definition date_of_string :: "str \<Rightarrow> error + date" where
  "date_of_string s = and_then (int_fields s) (\<lambda>(y, m, d). py_date y m d)"

text \<open>The loop body of \<open>is_valid_dates\<close> for one value: \<open>Inr None\<close> is \<open>return False\<close>,
  \<open>Inl\<close> an exception that the \<open>except (ValueError, TypeError)\<close> does not catch.\<close>

definition checked_date :: "json \<Rightarrow> error + date option" where
  "checked_date my_date =
     (case my_date of
        JStr s \<Rightarrow>
          (case date_of_string s of
             Inr dt \<Rightarrow> Inr (Some dt)
           | Inl ValueError \<Rightarrow> Inr None
           | Inl TypeError \<Rightarrow> Inr None
           | Inl UnicodeDecodeError \<Rightarrow> Inr None
           | Inl e \<Rightarrow> Inl e)
      | other \<Rightarrow> Inr None)"

text \<open>\<open>today\<close> is what \<open>date.today()\<close> returns when \<open>is_valid_dates\<close> reads it.\<close>

definition is_valid_dates :: "date \<Rightarrow> json \<times> json \<Rightarrow> error + bool" where
  "is_valid_dates today my_dates =
     and_then (checked_date (fst my_dates)) (\<lambda>first.
       case first of
         None \<Rightarrow> Inr False
       | Some first_date \<Rightarrow>
           and_then (checked_date (snd my_dates)) (\<lambda>last.
             case last of
               None \<Rightarrow> Inr False
             | Some last_date \<Rightarrow>
                 if \<not> date_le first_date last_date \<or> \<not> date_le last_date today
                 then Inr False else Inr True))"

definition default_data :: pydict where
  "default_data =
     [(ustr ''date_of_first_deletion'', JStr (ustr ''0001-01-01'')),
      (ustr ''date_of_last_deletion'', JStr (ustr ''0001-01-01'')),
      (ustr ''number_of_deletions'', JInt 0),
      (ustr ''number_of_deleted_files'', JInt 0),
      (ustr ''total_weight_of_deleted_files'', JInt 0)]"

definition valid_counter :: "json \<Rightarrow> bool" where
  "valid_counter num = (isinstance_int num \<and> int_value num \<ge> 0)"

definition check_data :: "date \<Rightarrow> pydict \<Rightarrow> pydict \<Rightarrow> error + pydict" where
  "check_data today data default_config =
     (if length data \<noteq> 5 \<or>
         \<not> has_key data (ustr ''date_of_first_deletion'') \<or>
         \<not> has_key data (ustr ''date_of_last_deletion'') \<or>
         \<not> has_key data (ustr ''number_of_deletions'') \<or>
         \<not> has_key data (ustr ''number_of_deleted_files'') \<or>
         \<not> has_key data (ustr ''total_weight_of_deleted_files'')
      then Inr default_config
      else
        and_then (dict_get data (ustr ''date_of_first_deletion'')) (\<lambda>first.
        and_then (dict_get data (ustr ''date_of_last_deletion'')) (\<lambda>last.
        and_then (dict_get data (ustr ''number_of_deletions'')) (\<lambda>n1.
        and_then (dict_get data (ustr ''number_of_deleted_files'')) (\<lambda>n2.
        and_then (dict_get data (ustr ''total_weight_of_deleted_files'')) (\<lambda>n3.
        and_then (is_valid_dates today (first, last)) (\<lambda>dates_ok.
          if \<not> dates_ok \<or> \<not> (valid_counter n1 \<and> valid_counter n2 \<and> valid_counter n3)
          then Inr default_config
          else Inr data)))))))"

subsection \<open>\<open>get_size\<close>, \<open>get_config_path\<close>, \<open>saving_data\<close>\<close>

text \<open>
  \<open>get_size\<close> builds a string that is only printed, so its result is \<open>unit\<close>; what is kept
  is where it raises. Below \<open>2**10\<close> the integer itself is formatted. From \<open>2**30\<close> on
  \<open>size/gb\<close> is a true division of integers, which raises \<open>OverflowError\<close> when the
  quotient rounds to a float beyond the largest one, that is from
  \<open>(2**1024 - 2**970) * 2**30\<close> on.
\<close>

definition get_size :: "int \<Rightarrow> error + unit" where
  "get_size sz =
     (if sz < 2 ^ 10 then int_to_str sz
      else if sz < 2 ^ 20 then Inr ()
      else if sz < 2 ^ 30 then Inr ()
      else if sz < (2 ^ 1024 - 2 ^ 970) * 2 ^ 30 then Inr ()
      else Inl OverflowError)"

text \<open>
  \<open>get_config_path\<close> creates the configuration directory: \<open>mkdir\<close> is \<open>None\<close> when that
  succeeds and the exception otherwise. A \<open>PermissionError\<close> ends the program with
  \<open>exit()\<close>. The path returned is always the same and is left out.
\<close>

definition get_config_path :: "error option \<Rightarrow> error + unit" where
  "get_config_path mkdir =
     (case mkdir of
        None \<Rightarrow> Inr ()
      | Some PermissionError \<Rightarrow> Inl SystemExit
      | Some e \<Rightarrow> Inl e)"

text \<open>
  \<open>saving_data\<close>: \<open>write\<close> is \<open>None\<close> when the file can be opened for writing and the
  exception that \<open>open\<close> raises otherwise; a \<open>PermissionError\<close> is caught and leaves the
  file as it was. \<open>dump\<close> raises \<open>ValueError\<close> at an integer of more than 4300 digits. The
  result is the flag returned and the file afterwards.
\<close>

fun dump_values :: "pydict \<Rightarrow> error + unit" where
  "dump_values [] = Inr ()"
| "dump_values ((k, JInt n) # d) = and_then (int_to_str n) (\<lambda>u. dump_values d)"
| "dump_values ((k, v) # d) = dump_values d"

definition saving_data ::
  "error option \<Rightarrow> file_content \<Rightarrow> pydict \<Rightarrow> error + (bool \<times> file_content)" where
  "saving_data write data_file data =
     (case write of
        None \<Rightarrow> and_then (dump_values data) (\<lambda>u. Inr (True, Decoded (JDict data)))
      | Some PermissionError \<Rightarrow> Inr (False, data_file)
      | Some e \<Rightarrow> Inl e)"

subsection \<open>\<open>save_and_display_cleanup_info\<close>\<close>

text \<open>\<open>x += n\<close> for an integer \<open>n\<close>.\<close>

definition py_add :: "json \<Rightarrow> int \<Rightarrow> error + json" where
  "py_add x n =
     (case x of
        JInt a \<Rightarrow> Inr (JInt (a + n))
      | JBool b \<Rightarrow> Inr (JInt (int_value (JBool b) + n))
      | JFloat r \<Rightarrow> Inr (JFloat (r + of_int n))
      | other \<Rightarrow> Inl TypeError)"

text \<open>\<open>s.split('-')\<close> on a value read from the dictionary: only a string has \<open>split\<close>.\<close>

definition split_date_value :: "json \<Rightarrow> error + (int \<times> int \<times> int)" where
  "split_date_value v = (case v of JStr s \<Rightarrow> int_fields s | other \<Rightarrow> Inl AttributeError)"

text \<open>\<open>months[m]\<close> in the dictionary with the keys 1 to 12.\<close>

definition month_name_lookup :: "int \<Rightarrow> error + unit" where
  "month_name_lookup m = (if 1 \<le> m \<and> m \<le> 12 then Inr () else Inl KeyError)"

text \<open>Formatting a counter in an f-string.\<close>

definition format_value :: "json \<Rightarrow> error + unit" where
  "format_value v = (case v of JInt n \<Rightarrow> int_to_str n | other \<Rightarrow> Inr ())"

text \<open>\<open>get_size\<close> of a value of the dictionary, which the checks have made an integer.\<close>

definition get_size_value :: "json \<Rightarrow> error + unit" where
  "get_size_value v = (case v of JInt n \<Rightarrow> get_size n | other \<Rightarrow> Inl TypeError)"

text \<open>
  The function reads \<open>date.today()\<close> up to five times, and midnight may pass in between:
  \<open>today_check\<close> is the reading of \<open>is_valid_dates\<close>, \<open>today_first\<close> and \<open>today_last\<close>
  are the two readings that fill an empty record, \<open>today_diff\<close> is the one of the
  difference and \<open>today_final\<close> is the one written as the date of the last deletion.
\<close>

record clock =
  today_check :: date
  today_first :: date
  today_last :: date
  today_diff :: date
  today_final :: date

text \<open>
  The environment of a history update: the clock, what \<open>mkdir\<close> of the configuration
  directory does, the file \<open>data.json\<close> and what opening it for writing does.
\<close>

record history_env =
  clock_of :: clock
  mkdir_error :: "error option"
  data_file :: file_content
  write_error :: "error option"

text \<open>
  What the function prints is left out, but every expression that is evaluated for
  printing and can raise is kept, in the order of the source. The result is the flag
  \<open>should_save_history\<close> and the file \<open>data.json\<close> afterwards.
\<close>

definition save_and_display_cleanup_info ::
  "history_env \<Rightarrow> int \<Rightarrow> int \<Rightarrow> bool \<Rightarrow> error + (bool \<times> file_content)" where
  "save_and_display_cleanup_info env total_files total_size display_stats =
     and_then (get_config_path (mkdir_error env)) (\<lambda>data_path.
     and_then (get_json_content (data_file env) default_data) (\<lambda>(content, default_config).
     and_then (check_data (today_check (clock_of env)) content default_config) (\<lambda>data0.
     and_then (dict_get data0 (ustr ''date_of_first_deletion'')) (\<lambda>first.
     let data1 =
           (if first = JStr (ustr ''0001-01-01'')
            then dict_set
                   (dict_set data0 (ustr ''date_of_first_deletion'')
                      (JStr (str_of_date (today_first (clock_of env)))))
                   (ustr ''date_of_last_deletion'')
                   (JStr (str_of_date (today_last (clock_of env))))
            else data0)
     in
     and_then (get_size total_size) (\<lambda>u.
     and_then (dict_get data1 (ustr ''number_of_deletions'')) (\<lambda>n1.
     and_then (py_add n1 1) (\<lambda>n1'.
     let data2 = dict_set data1 (ustr ''number_of_deletions'') n1' in
     and_then (dict_get data2 (ustr ''number_of_deleted_files'')) (\<lambda>n2.
     and_then (py_add n2 total_files) (\<lambda>n2'.
     let data3 = dict_set data2 (ustr ''number_of_deleted_files'') n2' in
     and_then (dict_get data3 (ustr ''total_weight_of_deleted_files'')) (\<lambda>n3.
     and_then (py_add n3 total_size) (\<lambda>n3'.
     let data4 = dict_set data3 (ustr ''total_weight_of_deleted_files'') n3' in
     and_then (dict_get data4 (ustr ''date_of_first_deletion'')) (\<lambda>first_date.
     and_then (dict_get data4 (ustr ''date_of_last_deletion'')) (\<lambda>last_date.
     and_then (dict_get data4 (ustr ''number_of_deletions'')) (\<lambda>count_of_deletions.
     and_then (dict_get data4 (ustr ''number_of_deleted_files'')) (\<lambda>count_of_files.
     and_then (dict_get data4 (ustr ''total_weight_of_deleted_files'')) (\<lambda>weight.
     and_then (get_size_value weight) (\<lambda>total_weight_of_all_files.
     and_then (split_date_value first_date) (\<lambda>(year_1, month_1, day_1).
     and_then (split_date_value last_date) (\<lambda>(year_2, month_2, day_2).
     and_then (py_date year_2 month_2 day_2) (\<lambda>last_as_date.
     and_then (if display_stats
               then and_then (month_name_lookup month_1) (\<lambda>u.
                    and_then (month_name_lookup month_2) (\<lambda>u.
                    and_then (format_value count_of_deletions) (\<lambda>u.
                    format_value count_of_files)))
               else Inr ()) (\<lambda>u.
     let data5 = dict_set data4 (ustr ''date_of_last_deletion'')
                   (JStr (str_of_date (today_final (clock_of env))))
     in saving_data (write_error env) (data_file env) data5
     )))))))))))))))))))))"

section \<open>Executor: \<open>deleting_files_and_directories\<close>, \<open>copy_or_move_files\<close>, \<open>execute_the_selected_option\<close>\<close>

subsection \<open>Runs with a log\<close>

text \<open>
  The executor prints as it goes, and what it has printed stays printed when an exception
  ends it. A run is therefore the log so far together with the exception or the value.
  Besides the messages the log records the calls and returns that the properties speak
  of: \<open>DeleteCalled\<close> and \<open>DeleteReturned\<close> for \<open>deleting_files_and_directories\<close>,
  \<open>TransferCalled\<close> for \<open>copy_or_move_files\<close> and \<open>HistoryUpdateCalled\<close> for
  \<open>save_and_display_cleanup_info\<close>. \<open>Progress total operations\<close> is a call of
  \<open>progress_of_operations\<close>, whose arithmetic on floats cannot raise for a positive tot.
\<close>

datatype event =
    Progress nat nat
  | FileNotFoundMsg str
  | CouldNotDeleteMsg str
  | Cleared
  | NotAllCleared
  | NotClearedMsg
  | CouldNotTransferMsg str
  | Transferred
  | NotAllTransferred
  | Cancelled
  | DirectoryGone
  | DeleteCalled
  | DeleteReturned
  | TransferCalled
  | HistoryUpdateCalled

type_synonym 'a run = "event list \<times> (error + 'a)"

definition ret :: "'a \<Rightarrow> 'a run" where
  "ret x = ([], Inr x)"

definition fail :: "error \<Rightarrow> 'a run" where
  "fail e = ([], Inl e)"

definition emit :: "event list \<Rightarrow> unit run" where
  "emit evs = (evs, Inr ())"

definition lift :: "error + 'a \<Rightarrow> 'a run" where
  "lift r = ([], r)"

definition bind :: "'a run \<Rightarrow> ('a \<Rightarrow> 'b run) \<Rightarrow> 'b run" where
  "bind r f =
     (case r of
        (out, Inl e) \<Rightarrow> (out, Inl e)
      | (out, Inr x) \<Rightarrow> (case f x of (out', y) \<Rightarrow> (out @ out', y)))"

subsection \<open>The file system under \<open>os.remove\<close> and \<open>os.rmdir\<close>\<close>

text \<open>
  The files and the directories that exist, the directory each path lies in, and for each
  path the exception that the operating system raises for it, if any, whatever the state
  of the path (a \<open>PermissionError\<close>, or another \<open>OSError\<close> such as the one of a read-only
  file system). Without such an exception \<open>os.remove\<close> removes an existing file, raises
  \<open>FileNotFoundError\<close> for a path that does not exist and an \<open>OSError\<close> for a directory;
  \<open>os.rmdir\<close> removes an existing directory in which nothing lies and raises an
  \<open>OSError\<close> otherwise.
\<close>

record fs_state =
  fs_files :: "str list"
  fs_dirs :: "str list"
  fs_parent :: "str \<Rightarrow> str"
  fs_join :: "str \<Rightarrow> str \<Rightarrow> str"
  remove_error :: "str \<Rightarrow> error option"
  rmdir_error :: "str \<Rightarrow> error option"

definition os_remove :: "fs_state \<Rightarrow> str \<Rightarrow> error + fs_state" where
  "os_remove fs p =
     (case remove_error fs p of
        Some e \<Rightarrow> Inl e
      | None \<Rightarrow>
          if p \<in> set (fs_files fs) then Inr (fs\<lparr>fs_files := removeAll p (fs_files fs)\<rparr>)
          else if p \<in> set (fs_dirs fs) then Inl OSError
          else Inl FileNotFoundError)"

definition dir_empty :: "fs_state \<Rightarrow> str \<Rightarrow> bool" where
  "dir_empty fs d = list_all (\<lambda>p. fs_parent fs p \<noteq> d) (fs_files fs @ fs_dirs fs)"

definition os_rmdir :: "fs_state \<Rightarrow> str \<Rightarrow> error + fs_state" where
  "os_rmdir fs d =
     (case rmdir_error fs d of
        Some e \<Rightarrow> Inl e
      | None \<Rightarrow>
          if d \<in> set (fs_dirs fs) \<and> dir_empty fs d
          then Inr (fs\<lparr>fs_dirs := removeAll d (fs_dirs fs)\<rparr>)
          else Inl OSError)"

text \<open>What \<open>except OSError\<close> catches.\<close>

definition is_os_error :: "error \<Rightarrow> bool" where
  "is_os_error e = (e = OSError \<or> e = FileNotFoundError \<or> e = PermissionError)"

subsection \<open>\<open>deleting_files_and_directories\<close>\<close>

text \<open>The first loop. The state is the file system, \<open>operations\<close> and \<open>success\<close>.\<close>

fun delete_loop ::
  "bool \<Rightarrow> bool \<Rightarrow> int \<Rightarrow> nat \<Rightarrow> str list \<Rightarrow> fs_state \<times> nat \<times> bool
     \<Rightarrow> (fs_state \<times> nat \<times> bool) run" where
  "delete_loop output_files indicator_output s tot [] st = ret st"
| "delete_loop output_files indicator_output s tot (file # rest) (fs, operations, success) =
     (let shown = (\<not> output_files \<and> indicator_output);
          operations' = (if shown then operations + 1 else operations);
          progress = (if shown then [Progress tot operations'] else [])
      in case os_remove fs file of
           Inr fs' \<Rightarrow>
             bind (emit progress) (\<lambda>u.
               delete_loop output_files indicator_output s tot rest (fs', operations', success))
         | Inl e \<Rightarrow>
             if e = FileNotFoundError then
               bind (emit (progress @
                       (if output_files then [FileNotFoundMsg (last (py_split s file))] else [])))
                 (\<lambda>u. delete_loop output_files indicator_output s tot rest
                         (fs, operations', False))
             else if e = PermissionError then
               bind (emit (progress @
                       (if output_files then [CouldNotDeleteMsg (last (py_split s file))] else [])))
                 (\<lambda>u. delete_loop output_files indicator_output s tot rest
                         (fs, operations', False))
             else bind (emit progress) (\<lambda>u. fail e))"

text \<open>
  The second loop. \<open>os.walk(path, topdown=False)\<close> swallows its own errors and yields a
  directory after the directories below it; what it yields for a path is a parameter,
  \<open>walk_up\<close>, the list of its \<open>(root, dirnames)\<close> pairs. A failing \<open>os.rmdir\<close> is passed
  over when its exception is an \<open>OSError\<close>.
\<close>

fun rmdir_each :: "fs_state \<Rightarrow> str \<Rightarrow> str list \<Rightarrow> error + fs_state" where
  "rmdir_each fs root_dir [] = Inr fs"
| "rmdir_each fs root_dir (nested_dir # rest) =
     (case os_rmdir fs (fs_join fs root_dir nested_dir) of
        Inr fs' \<Rightarrow> rmdir_each fs' root_dir rest
      | Inl e \<Rightarrow> if is_os_error e then rmdir_each fs root_dir rest else Inl e)"

fun sweep_walk :: "fs_state \<Rightarrow> walk \<Rightarrow> error + fs_state" where
  "sweep_walk fs [] = Inr fs"
| "sweep_walk fs ((root_dir, dirnames) # rest) =
     (case rmdir_each fs root_dir dirnames of
        Inr fs' \<Rightarrow> sweep_walk fs' rest
      | Inl e \<Rightarrow> Inl e)"

fun sweep_paths :: "(str \<Rightarrow> walk) \<Rightarrow> fs_state \<Rightarrow> str list \<Rightarrow> error + fs_state" where
  "sweep_paths walk_up fs [] = Inr fs"
| "sweep_paths walk_up fs (path # rest) =
     (case sweep_walk fs (walk_up path) of
        Inr fs' \<Rightarrow> sweep_paths walk_up fs' rest
      | Inl e \<Rightarrow> Inl e)"

text \<open>The function returns nothing; the result here is the file system it leaves and the
  final value of \<open>success\<close>.\<close>

definition deleting_files_and_directories ::
  "(str \<Rightarrow> walk) \<Rightarrow> fs_state \<Rightarrow> str list \<Rightarrow> str list \<Rightarrow> bool \<Rightarrow> bool \<Rightarrow> int
     \<Rightarrow> (fs_state \<times> bool) run" where
  "deleting_files_and_directories walk_up fs list_of_files paths output_files indicator_output s =
     bind (delete_loop output_files indicator_output s (length list_of_files) list_of_files
             (fs, 0, True)) (\<lambda>(fs1, operations, success).
     bind (lift (sweep_paths walk_up fs1 paths)) (\<lambda>fs2.
     bind (emit [if success then Cleared else NotAllCleared]) (\<lambda>u.
     ret (fs2, success))))"

subsection \<open>\<open>selecting_an_option_for_files\<close> and \<open>copy_or_move_files\<close>\<close>

text \<open>The console is the list of lines still to be typed. The answer is returned as it
  was typed, not stripped.\<close>

fun selecting_an_option_for_files :: "str list \<Rightarrow> error + (str \<times> str list)" where
  "selecting_an_option_for_files [] = Inl EOFError"
| "selecting_an_option_for_files (act # rest) =
     (if py_strip act \<in> set [ustr ''1'', ustr ''2'', ustr ''3''] then Inr (act, rest)
      else selecting_an_option_for_files rest)"

text \<open>\<open>xs[i]\<close> for an integer \<open>i\<close>, which may count from the end.\<close>

definition py_index :: "'a list \<Rightarrow> int \<Rightarrow> error + 'a" where
  "py_index xs i =
     (if 0 \<le> i \<and> i < int (length xs) then Inr (xs ! nat i)
      else if - int (length xs) \<le> i \<and> i < 0 then Inr (xs ! nat (int (length xs) + i))
      else Inl IndexError)"

text \<open>\<open>xs[int(number) - 1]\<close> for a typed \<open>number\<close>.\<close>

definition typed_index :: "'a list \<Rightarrow> str \<Rightarrow> error + 'a" where
  "typed_index xs number =
     (case py_int number of
        None \<Rightarrow> Inl ValueError
      | Some n \<Rightarrow> py_index xs (n - 1))"

text \<open>\<open>str(n)\<close> for a natural number without its digit limit, which the number of paths
  does not reach.\<close>

fun str_of_nat :: "nat \<Rightarrow> str" where
  "str_of_nat n =
     (if n < 10 then [48 + int n] else str_of_nat (n div 10) @ [48 + int (n mod 10)])"

declare str_of_nat.simps [simp del]

fun choose_directory :: "str list \<Rightarrow> str list \<Rightarrow> error + (str \<times> str list)" where
  "choose_directory folder_numbers [] = Inl EOFError"
| "choose_directory folder_numbers (choice # rest) =
     (if py_strip choice \<in> set folder_numbers then Inr (choice, rest)
      else choose_directory folder_numbers rest)"

text \<open>
  The environment of the executor: what \<open>os.listdir\<close>, \<open>shutil.copy\<close> and
  \<open>shutil.move\<close> raise, if anything, what \<open>os.walk\<close> yields bottom-up, and the exception
  with which a restarted session ends. \<open>restart_script\<close> never returns to its caller: it
  runs \<open>main\<close> again, which ends with \<open>restart_script\<close>, or it calls \<open>exit()\<close>. What a
  copy or a move does to the files is left out.
\<close>

record executor_env =
  listdir_error :: "str \<Rightarrow> error option"
  transfer_error :: "str \<Rightarrow> str \<Rightarrow> str \<Rightarrow> error option"
  walk_up :: "str \<Rightarrow> walk"
  session_end :: error

definition restart_script :: "executor_env \<Rightarrow> 'a run" where
  "restart_script env = fail (session_end env)"

fun transfer_loop ::
  "executor_env \<Rightarrow> str \<Rightarrow> str \<Rightarrow> bool \<Rightarrow> bool \<Rightarrow> int \<Rightarrow> nat \<Rightarrow> str list \<Rightarrow> nat \<times> bool
     \<Rightarrow> (nat \<times> bool) run" where
  "transfer_loop env number dst output_files indicator_output s tot [] st = ret st"
| "transfer_loop env number dst output_files indicator_output s tot (src # rest)
     (operations, success) =
     (let shown = (\<not> output_files \<and> indicator_output);
          operations' = (if shown then operations + 1 else operations);
          progress = (if shown then [Progress tot operations'] else [])
      in case transfer_error env number src dst of
           None \<Rightarrow>
             bind (emit progress) (\<lambda>u.
               transfer_loop env number dst output_files indicator_output s tot rest
                 (operations', success))
         | Some e \<Rightarrow>
             if is_os_error e then
               bind (emit (progress @
                       (if output_files then [CouldNotTransferMsg (last (py_split s src))] else [])))
                 (\<lambda>u. transfer_loop env number dst output_files indicator_output s tot rest
                         (operations', False))
             else bind (emit progress) (\<lambda>u. fail e))"

text \<open>The result is the console that is left.\<close>

definition copy_or_move_files ::
  "executor_env \<Rightarrow> str list \<Rightarrow> str list \<Rightarrow> str list \<Rightarrow> str \<Rightarrow> bool \<Rightarrow> bool \<Rightarrow> int
     \<Rightarrow> (str list) run" where
  "copy_or_move_files env ins list_of_files paths number output_files indicator_output s =
     (let folder_numbers = map str_of_nat [1..<length paths + 1] in
      bind (lift (choose_directory folder_numbers ins)) (\<lambda>(choice, ins1).
      bind (lift (typed_index paths choice)) (\<lambda>dst.
      case ins1 of
        [] \<Rightarrow> fail EOFError
      | confirm # ins2 \<Rightarrow>
          if py_strip (py_lower confirm) \<noteq> ustr ''yes''
          then bind (emit [Cancelled]) (\<lambda>u. ret ins2)
          else
            bind (case listdir_error env dst of
                    None \<Rightarrow> ret ()
                  | Some e \<Rightarrow>
                      if is_os_error e
                      then bind (emit [DirectoryGone]) (\<lambda>u. restart_script env)
                      else fail e) (\<lambda>u.
            bind (transfer_loop env number dst output_files indicator_output s
                    (length list_of_files) list_of_files (0, True)) (\<lambda>(operations, success).
            bind (emit [if success then Transferred else NotAllTransferred]) (\<lambda>u.
            ret ins2))))))"

subsection \<open>\<open>execute_the_selected_option\<close>\<close>

text \<open>
  \<open>number\<close> and \<open>act\<close> are \<open>None\<close> or a string. The result is the value returned,
  \<open>True\<close> or the falsy \<open>None\<close> (\<open>False\<close> here), the file system and the console that is
  left. \<open>perf_counter\<close> and \<open>files_cleanup_time\<close> only print.
\<close>

definition execute_the_selected_option ::
  "executor_env \<Rightarrow> fs_state \<Rightarrow> str list \<Rightarrow> str list \<Rightarrow> str list \<Rightarrow> str list \<Rightarrow> bool \<Rightarrow> bool
     \<Rightarrow> int \<Rightarrow> (bool \<times> fs_state \<times> str list) run" where
  "execute_the_selected_option env fs ins list_of_files list_of_selected_paths paths
     output_files indicator_output s =
     bind (if length paths \<noteq> 1
           then bind (lift (selecting_an_option_for_files ins)) (\<lambda>(number, ins1).
                bind (lift (typed_index [ustr ''copy'', ustr ''move'', ustr ''delete''] number))
                  (\<lambda>word. ret (Some number, ins1)))
           else ret (None, ins)) (\<lambda>(number, ins1).
     bind (if length paths = 1 \<or> number = Some (ustr ''3'')
           then (case ins1 of
                   [] \<Rightarrow> fail EOFError
                 | act # ins2 \<Rightarrow>
                     if py_strip (py_lower act) = ustr ''yes''
                     then (case ins2 of
                             [] \<Rightarrow> fail EOFError
                           | again # ins3 \<Rightarrow> ret (Some (py_strip (py_lower again)), ins3))
                     else ret (Some act, ins2))
           else ret (None, ins1)) (\<lambda>(act, ins2).
     if act \<noteq> Some (ustr ''yes'') \<and> act \<noteq> None
     then bind (emit [NotClearedMsg]) (\<lambda>u. ret (False, fs, ins2))
     else if act = Some (ustr ''yes'')
     then bind (emit [DeleteCalled]) (\<lambda>u.
          bind (deleting_files_and_directories (walk_up env) fs list_of_files
                  list_of_selected_paths output_files indicator_output s) (\<lambda>(fs', success).
          bind (emit [DeleteReturned]) (\<lambda>u.
          ret (True, fs', ins2))))
     else if number \<in> set [Some (ustr ''1''), Some (ustr ''2'')]
     then bind (emit [TransferCalled]) (\<lambda>u.
          bind (copy_or_move_files env ins2 list_of_files paths (the number) output_files
                  indicator_output s) (\<lambda>ins3.
          ret (False, fs, ins3)))
     else ret (False, fs, ins2)))"

subsection \<open>\<open>post_cleanup_actions\<close>\<close>

text \<open>
  \<open>saving_history_of_deleted_files\<close>: \<open>export_mkdir\<close> is what \<open>mkdir\<close> does in its call of
  \<open>get_config_path\<close> and \<open>export_error\<close> what writing the text file raises, if anything;
  a \<open>PermissionError\<close> is caught. The result is the console that is left.
\<close>

record export_env =
  export_mkdir :: "error option"
  export_error :: "error option"

definition saving_history_of_deleted_files :: "export_env \<Rightarrow> str list \<Rightarrow> error + str list" where
  "saving_history_of_deleted_files xenv ins =
     and_then (get_config_path (export_mkdir xenv)) (\<lambda>history_of_deleted_files.
       case ins of
         [] \<Rightarrow> Inl EOFError
       | act # rest \<Rightarrow>
           if py_strip (py_lower act) = ustr ''yes''
           then (case export_error xenv of
                   None \<Rightarrow> Inr rest
                 | Some PermissionError \<Rightarrow> Inr rest
                 | Some e \<Rightarrow> Inl e)
           else Inr rest)"

text \<open>
  \<open>os\<close> is the file system as \<open>os.path.getsize\<close> sees it after the pass. The result is
  the file \<open>data.json\<close> afterwards and the console that is left.
\<close>

definition post_cleanup_actions ::
  "bool \<Rightarrow> os_model \<Rightarrow> history_env \<Rightarrow> export_env \<Rightarrow> str list \<Rightarrow> str list \<Rightarrow> int \<Rightarrow> bool
     \<Rightarrow> (file_content \<times> str list) run" where
  "post_cleanup_actions boolean os henv xenv ins list_of_files total_size display_stats =
     (if boolean then
        (case get_information_about_deleted_files os list_of_files total_size of
           (deleted_files, not_deleted_files, total_files, total_size') \<Rightarrow>
             bind (emit [HistoryUpdateCalled]) (\<lambda>u.
             bind (lift (save_and_display_cleanup_info henv total_files total_size' display_stats))
               (\<lambda>(should_save_history, data_file').
             if should_save_history
             then bind (lift (saving_history_of_deleted_files xenv ins)) (\<lambda>ins'.
                    ret (data_file', ins'))
             else ret (data_file', ins))))
      else ret (data_file henv, ins))"

text \<open>
  The two lines of \<open>main\<close> that make a pass: the executor, and then
  \<open>post_cleanup_actions\<close> with the value it returned. \<open>probe\<close> gives the file system as
  \<open>os.path.getsize\<close> sees it after the executor.
\<close>

definition cleanup_pass ::
  "executor_env \<Rightarrow> (fs_state \<Rightarrow> os_model) \<Rightarrow> history_env \<Rightarrow> export_env \<Rightarrow> fs_state \<Rightarrow> str list
     \<Rightarrow> str list \<Rightarrow> str list \<Rightarrow> str list \<Rightarrow> int \<Rightarrow> bool \<Rightarrow> bool \<Rightarrow> bool \<Rightarrow> int
     \<Rightarrow> (fs_state \<times> file_content \<times> str list) run" where
  "cleanup_pass env probe henv xenv fs ins list_of_files list_of_selected_paths paths total_size
     output_files indicator_output display_stats s =
     bind (execute_the_selected_option env fs ins list_of_files list_of_selected_paths paths
             output_files indicator_output s) (\<lambda>(boolean, fs', ins').
     bind (post_cleanup_actions boolean (probe fs') henv xenv ins' list_of_files total_size
             display_stats) (\<lambda>(data_file', ins'').
     ret (fs', data_file', ins'')))"

section \<open>Specification-side notions used to state the properties\<close>

text \<open>
  None of these is code of the repository: \<open>selected\<close> is the test a path passes to be
  reported, \<open>candidates\<close> lists the joined paths of a walk in order, \<open>add_selected\<close> is
  what reporting a list of paths adds to a scanner's three results, \<open>entries\<close> lists the
  (directory, file) pairs of a walk, \<open>bucket\<close> is the work of worker \<open>i\<close> under a
  round-robin assignment starting at \<open>counter\<close>, and \<open>ends_with_extension\<close> and
  \<open>has_extension\<close> say in words of lists what the pattern matches (with and without the
  final newline that \<open>$\<close> allows), and \<open>no_ascii_upper\<close> is a string without one of
  the letters A to Z, which \<open>ascii_upper\<close> recognises.
\<close>

definition size_of :: "os_model \<Rightarrow> str \<Rightarrow> int" where
  "size_of os p = (case stat_size os p of None \<Rightarrow> 0 | Some n \<Rightarrow> n)"

definition selected ::
  "os_model \<Rightarrow> file_formats \<Rightarrow> bool \<Rightarrow> (int \<times> int) option \<Rightarrow> str \<Rightarrow> bool" where
  "selected os ff inversion fbs p =
     (get_file_by_format p ff inversion \<and>
      (case stat_size os p of None \<Rightarrow> False | Some n \<Rightarrow> size_passes fbs n))"

definition candidates :: "os_model \<Rightarrow> walk \<Rightarrow> str list" where
  "candidates os walked = concat (map (\<lambda>(d, fs). map (path_join os d) fs) walked)"

definition name_and_size :: "os_model \<Rightarrow> int \<Rightarrow> str \<Rightarrow> str \<times> int" where
  "name_and_size os s p = (last (py_split s p), size_of os p)"

definition add_selected :: "os_model \<Rightarrow> int \<Rightarrow> str list \<Rightarrow> scan \<Rightarrow> scan" where
  "add_selected os s sel acc =
     (case acc of (t, fas, ps) \<Rightarrow>
        (t + sum_list (map (size_of os) sel), fas @ map (name_and_size os s) sel, ps @ sel))"

definition entries :: "walk \<Rightarrow> (str \<times> str) list" where
  "entries walked = concat (map (\<lambda>(d, fs). map (Pair d) fs) walked)"

definition bucket :: "nat \<Rightarrow> nat \<Rightarrow> nat \<Rightarrow> walk \<Rightarrow> walk" where
  "bucket num_cores counter i walked =
     map (\<lambda>j. walked ! j) (filter (\<lambda>j. (counter + j) mod num_cores = i) [0..<length walked])"

definition ends_with_extension :: "str \<Rightarrow> str \<Rightarrow> bool" where
  "ends_with_extension file ext =
     (\<exists>pre tail. file = pre @ chr_dot # ext @ tail \<and> at_end tail \<and>
        1 \<le> length ext \<and> length ext \<le> 10 \<and> list_all ext_char ext)"

definition has_extension :: "str \<Rightarrow> bool" where
  "has_extension file =
     (\<exists>pre ext. file = pre @ chr_dot # ext \<and>
        1 \<le> length ext \<and> length ext \<le> 10 \<and> list_all ext_char ext)"



text \<open>\<open>probe_fails\<close>: probing the size of a path raises.\<close>

definition probe_fails :: "os_model \<Rightarrow> str \<Rightarrow> bool" where
  "probe_fails os p = (case getsize os p of Inl e \<Rightarrow> True | Inr n \<Rightarrow> False)"

section \<open>Literals\<close>

lemma ustr_Nil [simp]: "ustr [] = []"
  by (simp add: ustr_def)

lemma ustr_Cons [simp]: "ustr (c # cs) = of_char c # ustr cs"
  by (simp add: ustr_def)

section \<open>What a scan returns\<close>

lemma scan_file_eq:
  "scan_file os ff iv fbs s p acc =
     Inr (add_selected os s (filter (selected os ff iv fbs) [p]) acc)"
  by (cases acc)
     (auto simp: scan_file_def add_selected_def selected_def path_exists_def getsize_def
        name_and_size_def size_of_def split: option.splits)

lemma add_selected_append:
  "add_selected os s ys (add_selected os s xs acc) = add_selected os s (xs @ ys) acc"
  by (cases acc) (simp add: add_selected_def)

lemma scan_files_eq:
  "scan_files os ff iv fbs s d files acc =
     Inr (add_selected os s (filter (selected os ff iv fbs) (map (path_join os d) files)) acc)"
proof (induction files arbitrary: acc)
  case Nil
  show ?case by (cases acc) (simp add: add_selected_def)
next
  case (Cons f files)
  show ?case
    by (simp only: scan_files.simps scan_file_eq sum.case Cons.IH add_selected_append)
       simp
qed

lemma scan_directories_eq:
  "scan_directories os ff iv fbs s walked acc =
     Inr (add_selected os s (filter (selected os ff iv fbs) (candidates os walked)) acc)"
proof (induction walked arbitrary: acc)
  case Nil
  show ?case by (cases acc) (simp add: add_selected_def candidates_def)
next
  case (Cons dfs walked)
  obtain d files where dfs: "dfs = (d, files)" by (cases dfs)
  show ?case
    unfolding dfs
    by (simp only: scan_directories.simps scan_files_eq sum.case Cons.IH add_selected_append)
       (simp add: candidates_def)
qed

lemma merge_results_eq:
  "merge_results (map (\<lambda>t. Inr (add_selected os s (f t) (0, [], []))) tasks) acc =
     Inr (add_selected os s (concat (map f tasks)) acc)"
proof (induction tasks arbitrary: acc)
  case Nil
  show ?case by (cases acc) (simp add: add_selected_def)
next
  case (Cons t tasks)
  obtain a b c where acc: "acc = (a, b, c)" by (cases acc)
  have step: "merge_results (Inr (add_selected os s (f t) (0, [], [])) # rest) (a, b, c)
      = merge_results rest (add_selected os s (f t) (a, b, c))" for rest
    by (simp add: add_selected_def)
  show ?case
    unfolding acc by (simp only: list.map step Cons.IH add_selected_append concat.simps)
qed

lemma candidates_concat:
  "candidates os (concat tasks) = concat (map (candidates os) tasks)"
  by (induction tasks) (simp_all add: candidates_def)

lemma mset_concat_map_cong:
  assumes "mset xs = mset ys"
  shows "mset (concat (map g xs)) = mset (concat (map g ys))"
proof -
  have "mset (concat (map g zs)) = sum_mset (image_mset (\<lambda>z. mset (g z)) (mset zs))" for zs
    by (induction zs) simp_all
  then show ?thesis using assms by simp
qed

section \<open>Round-robin partition of a walk\<close>

lemma bucket_Nil: "bucket w c i [] = []"
  by (simp add: bucket_def)

lemma bucket_Cons:
  "bucket w c i (x # xs) = (if c mod w = i then [x] else []) @ bucket w (Suc c) i xs"
proof -
  have "[0..<length (x # xs)] = 0 # map Suc [0..<length xs]"
    by (simp add: upt_conv_Cons map_Suc_upt del: upt_Suc)
  then show ?thesis
    by (simp add: bucket_def filter_map comp_def del: upt_Suc)
qed

lemma mset_concat_update:
  assumes "i < length tasks"
  shows "mset (concat (tasks[i := tasks ! i @ [x]])) = add_mset x (mset (concat tasks))"
proof -
  have whole: "take i tasks @ tasks ! i # drop (Suc i) tasks = tasks"
    using assms by (simp add: id_take_nth_drop[symmetric])
  have "mset (concat (tasks[i := tasks ! i @ [x]]))
      = mset (concat (take i tasks @ (tasks ! i @ [x]) # drop (Suc i) tasks))"
    using assms by (simp add: upd_conv_take_nth_drop)
  also have "\<dots> = add_mset x (mset (concat (take i tasks @ tasks ! i # drop (Suc i) tasks)))"
    by simp
  also have "\<dots> = add_mset x (mset (concat tasks))"
    by (simp only: whole)
  finally show ?thesis .
qed

lemma distribute_inv:
  assumes "0 < w" "length tasks = w"
  shows "\<exists>tasks'. distribute w walked c tasks = Inr tasks' \<and> length tasks' = w \<and>
           mset (concat tasks') = mset (concat tasks) + mset walked \<and>
           (\<forall>i<w. tasks' ! i = tasks ! i @ bucket w c i walked)"
  using assms
proof (induction walked arbitrary: c tasks)
  case Nil
  then show ?case by (simp add: bucket_Nil)
next
  case (Cons x walked)
  obtain d files where x: "x = (d, files)" by (cases x)
  let ?t = "tasks[c mod w := tasks ! (c mod w) @ [x]]"
  have lt: "c mod w < length tasks" using Cons.prems by simp
  have len: "length ?t = w" using Cons.prems by simp
  from Cons.IH[OF Cons.prems(1) len, of "Suc c"]
  obtain tasks' where r: "distribute w walked (Suc c) ?t = Inr tasks'"
    and l: "length tasks' = w"
    and m: "mset (concat tasks') = mset (concat ?t) + mset walked"
    and b: "\<forall>i<w. tasks' ! i = ?t ! i @ bucket w (Suc c) i walked"
    by blast
  have step: "distribute w (x # walked) c tasks = distribute w walked (Suc c) ?t"
    using Cons.prems(1) by (simp add: x Let_def)
  have m': "mset (concat tasks') = mset (concat tasks) + mset (x # walked)"
    using m mset_concat_update[OF lt, of x] by simp
  have b': "\<forall>i<w. tasks' ! i = tasks ! i @ bucket w c i (x # walked)"
  proof (intro allI impI)
    fix i assume i: "i < w"
    show "tasks' ! i = tasks ! i @ bucket w c i (x # walked)"
      using b i lt Cons.prems(2) by (cases "c mod w = i") (simp_all add: bucket_Cons)
  qed
  show ?case using step r l m' b' by simp
qed

lemma distribute_replicate:
  assumes "0 < w"
  shows "\<exists>tasks. distribute w walked 0 (replicate w []) = Inr tasks \<and> length tasks = w \<and>
           mset (concat tasks) = mset walked \<and>
           (\<forall>i<w. tasks ! i = bucket w 0 i walked)"
proof -
  from distribute_inv[OF assms, of "replicate w []" walked 0]
  obtain tasks where "distribute w walked 0 (replicate w []) = Inr tasks" "length tasks = w"
    "mset (concat tasks) = mset (concat (replicate w [])) + mset walked"
    "\<forall>i<w. tasks ! i = replicate w [] ! i @ bucket w 0 i walked"
    by auto
  moreover have "concat (replicate w ([] :: walk)) = []" by (induction w) simp_all
  ultimately show ?thesis by simp
qed

lemma in_bucket:
  "x \<in> set (bucket w c i walked) \<longleftrightarrow>
     (\<exists>a < length walked. (c + a) mod w = i \<and> x = walked ! a)"
  by (auto simp: bucket_def)

lemma bucket_disjoint:
  assumes "distinct (map fst walked)" "i \<noteq> j"
  shows "fst ` set (bucket w 0 i walked) \<inter> fst ` set (bucket w 0 j walked) = {}"
proof (rule ccontr)
  assume "\<not> ?thesis"
  then obtain x y where x: "x \<in> set (bucket w 0 i walked)"
    and y: "y \<in> set (bucket w 0 j walked)" and e: "fst x = fst y"
    by blast
  from x obtain a where a: "a < length walked" "a mod w = i" "x = walked ! a"
    by (auto simp: in_bucket)
  from y obtain b where b: "b < length walked" "b mod w = j" "y = walked ! b"
    by (auto simp: in_bucket)
  have "fst (walked ! a) = fst (walked ! b)" using a b e by simp
  then have "a = b" using nth_eq_iff_index_eq[OF assms(1), of a b] a(1) b(1) by simp
  then show False using a b assms(2) by simp
qed

section \<open>The extension pattern\<close>

lemma try_lengths_Some:
  "try_lengths n r = Some e \<Longrightarrow> \<exists>k. 1 \<le> k \<and> k \<le> n \<and> e = take k r \<and> at_end (drop k r)"
proof (induction n)
  case 0
  then show ?case by simp
next
  case (Suc n)
  show ?case
  proof (cases "at_end (drop (Suc n) r)")
    case True
    with Suc.prems have "e = take (Suc n) r" by simp
    with True show ?thesis by (intro exI[of _ "Suc n"]) simp
  next
    case False
    with Suc.prems have "try_lengths n r = Some e" by simp
    from Suc.IH[OF this] show ?thesis by (metis le_Suc_eq)
  qed
qed

lemma try_lengths_None:
  "try_lengths n r = None \<Longrightarrow> 1 \<le> k \<Longrightarrow> k \<le> n \<Longrightarrow> \<not> at_end (drop k r)"
proof (induction n)
  case 0
  then show ?case by simp
next
  case (Suc n)
  then show ?case
    by (cases "k = Suc n") (auto split: if_splits)
qed

lemma match_here_Some:
  assumes "match_here r = Some e"
  shows "\<exists>tail. r = e @ tail \<and> at_end tail \<and> 1 \<le> length e \<and> length e \<le> 10 \<and> list_all ext_char e"
proof -
  from try_lengths_Some[OF assms[unfolded match_here_def]]
  obtain k where k: "1 \<le> k" "k \<le> min 10 (length (takeWhile ext_char r))"
    "e = take k r" "at_end (drop k r)" by blast
  have kl: "k \<le> length (takeWhile ext_char r)" using k(2) by simp
  have "length (takeWhile ext_char r) \<le> length r" by (rule length_takeWhile_le)
  then have len: "length e = k" using k(3) kl by simp
  have "take k r = take k (takeWhile ext_char r)"
    using kl by (metis append_eq_conv_conj takeWhile_dropWhile_id take_all take_append diff_is_0_eq take_0 append_Nil2)
  then have "set e \<subseteq> set (takeWhile ext_char r)" using k(3) by (simp add: set_take_subset)
  then have "list_all ext_char e" by (auto simp: list_all_iff dest: set_takeWhileD)
  moreover have "r = e @ drop k r" using k(3) by simp
  ultimately show ?thesis using k len by (intro exI[of _ "drop k r"]) simp
qed

lemma search_extension_sound:
  "search_extension fl = Some e \<Longrightarrow> ends_with_extension fl e"
proof (induction fl)
  case Nil
  then show ?case by simp
next
  case (Cons c cs)
  show ?case
  proof (cases "c = chr_dot \<and> match_here cs \<noteq> None")
    case True
    then obtain e' where m: "match_here cs = Some e'" by auto
    with True Cons.prems have "e' = e" by simp
    from match_here_Some[OF m] this
    obtain tail where "cs = e @ tail" "at_end tail" "1 \<le> length e" "length e \<le> 10" "list_all ext_char e"
      by blast
    then show ?thesis
      unfolding ends_with_extension_def using True
      by (intro exI[of _ "[]"] exI[of _ tail]) simp
  next
    case False
    then have "search_extension cs = Some e" using Cons.prems by (auto split: option.splits if_splits)
    from Cons.IH[OF this] obtain pre tail where
      "cs = pre @ chr_dot # e @ tail" "at_end tail" "1 \<le> length e" "length e \<le> 10" "list_all ext_char e"
      unfolding ends_with_extension_def by blast
    then show ?thesis
      unfolding ends_with_extension_def
      by (intro exI[of _ "c # pre"] exI[of _ tail]) simp
  qed
qed

lemma takeWhile_ext_char_append:
  "list_all ext_char e \<Longrightarrow> length e \<le> length (takeWhile ext_char (e @ tail))"
  by (induction e) simp_all

lemma match_here_complete:
  assumes "list_all ext_char e" "1 \<le> length e" "length e \<le> 10" "at_end tail"
  shows "match_here (e @ tail) \<noteq> None"
proof
  assume n: "match_here (e @ tail) = None"
  have "length e \<le> min 10 (length (takeWhile ext_char (e @ tail)))"
    using takeWhile_ext_char_append[OF assms(1), of tail] assms(3) by simp
  from try_lengths_None[OF n[unfolded match_here_def] assms(2) this]
  show False using assms(4) by simp
qed

lemma search_extension_complete:
  "ends_with_extension file e \<Longrightarrow> search_extension file \<noteq> None"
proof -
  assume "ends_with_extension file e"
  then obtain pre tail where f: "file = pre @ chr_dot # e @ tail" and t: "at_end tail"
    and l: "1 \<le> length e" "length e \<le> 10" and a: "list_all ext_char e"
    unfolding ends_with_extension_def by blast
  have "search_extension (pre @ chr_dot # e @ tail) \<noteq> None"
  proof (induction pre)
    case Nil
    show ?case using match_here_complete[OF a l t] by (auto split: option.splits)
  next
    case (Cons c pre)
    then show ?case by (auto split: option.splits)
  qed
  then show ?thesis using f by simp
qed

lemma search_extension_None_iff:
  "search_extension file = None \<longleftrightarrow> \<not> (\<exists>e. ends_with_extension file e)"
  using search_extension_sound search_extension_complete by (metis not_Some_eq)

section \<open>Exact matches of the pattern\<close>






section \<open>Lower-casing of the typed extensions\<close>











section \<open>The two scanners agree\<close>

lemma sum_list_mset_cong:
  "mset xs = mset ys \<Longrightarrow> sum_list (map f xs) = sum_list (map (f :: 'a \<Rightarrow> int) ys)"
proof -
  assume "mset xs = mset ys"
  then have "mset (map f xs) = mset (map f ys)" by simp
  then show ?thesis by (metis sum_mset_sum_list)
qed

lemma get_all_files_windows_eq:
  "get_all_files_windows os walked ff iv fbs s =
     Inr (add_selected os s (filter (selected os ff iv fbs) (candidates os walked)) (0, [], []))"
  by (simp add: get_all_files_windows_def scan_directories_eq)

lemma get_information_about_files_eq:
  "get_information_about_files os ff iv fbs s task =
     Inr (add_selected os s (filter (selected os ff iv fbs) (candidates os task)) (0, [], []))"
  by (simp add: get_information_about_files_def scan_directories_eq)

lemma get_all_files_eq:
  assumes "0 < w" "distribute w walked 0 (replicate w []) = Inr tasks"
  shows "get_all_files os w walked ff iv fbs s =
     Inr (add_selected os s (filter (selected os ff iv fbs) (candidates os (concat tasks))) (0, [], []))"
proof -
  have "(\<lambda>t. get_information_about_files os ff iv fbs s t) =
        (\<lambda>t. Inr (add_selected os s (filter (selected os ff iv fbs) (candidates os t)) (0, [], [])))"
    by (simp add: get_information_about_files_eq)
  then have "get_all_files os w walked ff iv fbs s =
     Inr (add_selected os s
            (concat (map (\<lambda>t. filter (selected os ff iv fbs) (candidates os t)) tasks)) (0, [], []))"
    using assms by (simp add: get_all_files_def merge_results_eq)
  moreover have "concat (map (\<lambda>t. filter (selected os ff iv fbs) (candidates os t)) tasks)
      = filter (selected os ff iv fbs) (candidates os (concat tasks))"
    by (simp add: candidates_concat filter_concat comp_def)
  ultimately show ?thesis by simp
qed

text \<open>
  Claim C1. On a static tree, for every policy, separator and number of cores (at least
  one), the process-pool scanner \<open>get_all_files\<close> and the sequential scanner
  \<open>get_all_files_windows\<close> both return, with the same total size, the same multiset of
  (file name, file size) pairs and the same multiset of full paths.
\<close>

theorem parallel_scan_equals_sequential:
  assumes "0 < num_cores"
  shows "\<exists>total files_and_size paths files_and_size' paths'.
     get_all_files os num_cores walked ff inversion fbs s = Inr (total, files_and_size, paths) \<and>
     get_all_files_windows os walked ff inversion fbs s = Inr (total, files_and_size', paths') \<and>
     mset files_and_size = mset files_and_size' \<and> mset paths = mset paths'"
proof -
  from distribute_replicate[OF assms, of walked] obtain tasks where
    d: "distribute num_cores walked 0 (replicate num_cores []) = Inr tasks"
    and m: "mset (concat tasks) = mset walked" by blast
  let ?P = "filter (selected os ff inversion fbs) (candidates os (concat tasks))"
  let ?S = "filter (selected os ff inversion fbs) (candidates os walked)"
  have "mset (candidates os (concat tasks)) = mset (candidates os walked)"
    unfolding candidates_def by (rule mset_concat_map_cong[OF m])
  then have ps: "mset ?P = mset ?S" by simp
  have sum: "sum_list (map (size_of os) ?P) = sum_list (map (size_of os) ?S)"
    by (rule sum_list_mset_cong[OF ps])
  have nm: "mset (map (name_and_size os s) ?P) = mset (map (name_and_size os s) ?S)"
    using ps by simp
  show ?thesis
    unfolding get_all_files_eq[OF assms d] get_all_files_windows_eq
    using ps sum nm by (simp add: add_selected_def)
qed

theorem parallel_scan_equals_sequential_witness:
  "\<exists>total files_and_size paths files_and_size' paths'.
     get_all_files \<lparr>path_join = posix_join, stat_size = (\<lambda>p. if p = ustr ''/d/a.txt'' then Some 10 else if p = ustr ''/d/s/b.log'' then Some 20 else None)\<rparr>
       2 [(ustr ''/d'', [ustr ''a.txt'']), (ustr ''/d/s'', [ustr ''b.log''])] All False None (chr_slash)
       = Inr (total, files_and_size, paths) \<and>
     get_all_files_windows \<lparr>path_join = posix_join, stat_size = (\<lambda>p. if p = ustr ''/d/a.txt'' then Some 10 else if p = ustr ''/d/s/b.log'' then Some 20 else None)\<rparr>
       [(ustr ''/d'', [ustr ''a.txt'']), (ustr ''/d/s'', [ustr ''b.log''])] All False None (chr_slash)
       = Inr (total, files_and_size', paths') \<and>
     mset files_and_size = mset files_and_size' \<and> mset paths = mset paths'"
  by (rule parallel_scan_equals_sequential) simp

section \<open>Partition and size filter\<close>

lemma entries_mset_cong: "mset xs = mset ys \<Longrightarrow> mset (entries xs) = mset (entries ys)"
  unfolding entries_def by (rule mset_concat_map_cong)

text \<open>
  Claim C5. For every walk and every worker count of at least one, the loop that sends the
  pair at position \<open>counter\<close> to bucket \<open>counter mod num_cores\<close> ends with \<open>num_cores\<close>
  work lists; list \<open>i\<close> holds exactly the pairs at the positions congruent to \<open>i\<close>, the
  lists together hold the walk's (directory, files) pairs and its (directory, file) entries
  as the same multisets (nothing left out, nothing twice), and when the walk names each
  directory once no directory is in two lists.
\<close>

theorem round_robin_partition:
  assumes "0 < num_cores"
  shows "\<exists>tasks. distribute num_cores walked 0 (replicate num_cores []) = Inr tasks \<and>
           length tasks = num_cores \<and>
           (\<forall>i<num_cores. tasks ! i = bucket num_cores 0 i walked) \<and>
           mset (concat tasks) = mset walked \<and>
           mset (entries (concat tasks)) = mset (entries walked) \<and>
           (distinct (map fst walked) \<longrightarrow>
              (\<forall>i<num_cores. \<forall>j<num_cores. i \<noteq> j \<longrightarrow>
                 fst ` set (tasks ! i) \<inter> fst ` set (tasks ! j) = {}))"
proof -
  from distribute_replicate[OF assms, of walked] obtain tasks where
    d: "distribute num_cores walked 0 (replicate num_cores []) = Inr tasks"
    and l: "length tasks = num_cores"
    and m: "mset (concat tasks) = mset walked"
    and b: "\<forall>i<num_cores. tasks ! i = bucket num_cores 0 i walked" by blast
  have e: "mset (entries (concat tasks)) = mset (entries walked)"
    by (rule entries_mset_cong[OF m])
  have dj: "distinct (map fst walked) \<longrightarrow>
              (\<forall>i<num_cores. \<forall>j<num_cores. i \<noteq> j \<longrightarrow>
                 fst ` set (tasks ! i) \<inter> fst ` set (tasks ! j) = {})"
    using b bucket_disjoint by simp
  show ?thesis using d l m b e dj by blast
qed

theorem round_robin_partition_witness:
  "\<exists>tasks. distribute 2 [(ustr ''/d'', [ustr ''a'', ustr ''b'']), (ustr ''/d/s'', [ustr ''c'']), (ustr ''/d/t'', [])] 0 (replicate 2 []) = Inr tasks \<and>
           length tasks = 2 \<and>
           (\<forall>i<2. tasks ! i = bucket 2 0 i [(ustr ''/d'', [ustr ''a'', ustr ''b'']), (ustr ''/d/s'', [ustr ''c'']), (ustr ''/d/t'', [])]) \<and>
           mset (concat tasks) = mset [(ustr ''/d'', [ustr ''a'', ustr ''b'']), (ustr ''/d/s'', [ustr ''c'']), (ustr ''/d/t'', [])] \<and>
           mset (entries (concat tasks)) = mset (entries [(ustr ''/d'', [ustr ''a'', ustr ''b'']), (ustr ''/d/s'', [ustr ''c'']), (ustr ''/d/t'', [])]) \<and>
           (distinct (map fst [(ustr ''/d'', [ustr ''a'', ustr ''b'']), (ustr ''/d/s'', [ustr ''c'']), (ustr ''/d/t'', [])]) \<longrightarrow>
              (\<forall>i<2. \<forall>j<2. i \<noteq> j \<longrightarrow>
                 fst ` set (tasks ! i) \<inter> fst ` set (tasks ! j) = {}))"
  by (rule round_robin_partition) simp

lemma distribute_example:
  "distribute 2 [(ustr ''/d'', [ustr ''a'', ustr ''b'']), (ustr ''/d/s'', [ustr ''c'']), (ustr ''/d/t'', [])] 0 (replicate 2 [])
     = Inr [[(ustr ''/d'', [ustr ''a'', ustr ''b'']), (ustr ''/d/t'', [])], [(ustr ''/d/s'', [ustr ''c''])]]"
  by (simp add: numeral_2_eq_2)

text \<open>
  Claim C9. With an active size range \<open>(lo, hi)\<close>, \<open>lo < hi\<close>, both scanners report exactly
  the candidate paths that pass the extension test, exist, and have a size \<open>file_size\<close>
  with \<open>lo \<le> file_size \<le> hi\<close>: a file failing either test is left out. The two boundary
  sizes pass and the sizes just outside do not.
\<close>

theorem size_filter_inclusive:
  assumes "lo < hi"
  shows "\<exists>total files_and_size paths.
           get_all_files_windows os walked ff inversion (Some (lo, hi)) s
             = Inr (total, files_and_size, paths) \<and>
           get_information_about_files os ff inversion (Some (lo, hi)) s walked
             = Inr (total, files_and_size, paths) \<and>
           paths = filter (\<lambda>p. get_file_by_format p ff inversion \<and>
                      (case stat_size os p of None \<Rightarrow> False
                       | Some file_size \<Rightarrow> lo \<le> file_size \<and> file_size \<le> hi))
                    (candidates os walked) \<and>
           size_passes (Some (lo, hi)) lo \<and> size_passes (Some (lo, hi)) hi \<and>
           \<not> size_passes (Some (lo, hi)) (lo - 1) \<and> \<not> size_passes (Some (lo, hi)) (hi + 1)"
proof -
  have sel: "selected os ff inversion (Some (lo, hi)) =
      (\<lambda>p. get_file_by_format p ff inversion \<and>
                      (case stat_size os p of None \<Rightarrow> False
                       | Some file_size \<Rightarrow> lo \<le> file_size \<and> file_size \<le> hi))"
    by (rule ext) (simp add: selected_def size_passes_def split: option.splits)
  show ?thesis
    using assms
    by (simp add: get_all_files_windows_eq get_information_about_files_eq add_selected_def sel
        size_passes_def)
qed

theorem size_filter_inclusive_witness:
  "\<exists>total files_and_size paths.
     get_all_files_windows
       \<lparr>path_join = posix_join,
        stat_size = (\<lambda>p. if p = ustr ''/d/a.txt'' then Some 50 else if p = ustr ''/d/b.txt'' then Some 150
                          else if p = ustr ''/d/c.txt'' then Some 250 else None)\<rparr>
       [(ustr ''/d'', [ustr ''a.txt'', ustr ''b.txt'', ustr ''c.txt''])] All False (Some (100, 200)) (chr_slash)
       = Inr (total, files_and_size, paths) \<and>
     get_information_about_files
       \<lparr>path_join = posix_join,
        stat_size = (\<lambda>p. if p = ustr ''/d/a.txt'' then Some 50 else if p = ustr ''/d/b.txt'' then Some 150
                          else if p = ustr ''/d/c.txt'' then Some 250 else None)\<rparr>
       All False (Some (100, 200)) (chr_slash) [(ustr ''/d'', [ustr ''a.txt'', ustr ''b.txt'', ustr ''c.txt''])]
       = Inr (total, files_and_size, paths) \<and>
     paths = filter (\<lambda>p. get_file_by_format p All False \<and>
                (case stat_size
                   \<lparr>path_join = posix_join,
                    stat_size = (\<lambda>p. if p = ustr ''/d/a.txt'' then Some 50 else if p = ustr ''/d/b.txt'' then Some 150
                          else if p = ustr ''/d/c.txt'' then Some 250 else None)\<rparr> p of
                   None \<Rightarrow> False
                 | Some file_size \<Rightarrow> 100 \<le> file_size \<and> file_size \<le> 200))
              (candidates
                 \<lparr>path_join = posix_join,
                  stat_size = (\<lambda>p. if p = ustr ''/d/a.txt'' then Some 50 else if p = ustr ''/d/b.txt'' then Some 150
                          else if p = ustr ''/d/c.txt'' then Some 250 else None)\<rparr>
                 [(ustr ''/d'', [ustr ''a.txt'', ustr ''b.txt'', ustr ''c.txt''])]) \<and>
     size_passes (Some (100, 200)) 100 \<and> size_passes (Some (100, 200)) 200 \<and>
     \<not> size_passes (Some (100, 200)) (100 - 1) \<and> \<not> size_passes (Some (100, 200)) (200 + 1)"
  by (rule size_filter_inclusive) simp

lemma size_filter_scenario:
  "get_all_files_windows
       \<lparr>path_join = posix_join,
        stat_size = (\<lambda>p. if p = ustr ''/d/a.txt'' then Some 50 else if p = ustr ''/d/b.txt'' then Some 150
                          else if p = ustr ''/d/c.txt'' then Some 250 else None)\<rparr>
       [(ustr ''/d'', [ustr ''a.txt'', ustr ''b.txt'', ustr ''c.txt''])] All False (Some (100, 200)) (chr_slash)
     = Inr (150, [(ustr ''b.txt'', 150)], [ustr ''/d/b.txt''])"
  by (simp add: get_all_files_windows_def scan_file_def get_file_by_format_def path_exists_def
      getsize_def size_passes_def posix_join_def py_split_def)

section \<open>Files without an extension, and upper-case extensions\<close>

lemma has_extension_dot: "has_extension f \<Longrightarrow> chr_dot \<in> set f"
  by (auto simp: has_extension_def)

lemma has_extension_ends: "has_extension f \<Longrightarrow> \<exists>ext. ends_with_extension f ext"
  unfolding has_extension_def ends_with_extension_def
  by (metis append_Nil2 at_end_def)

text \<open>
  With inversion off a path in which the pattern finds no extension is excluded by every
  policy other than \<open>'all'\<close>.
\<close>

lemma extensionless_file_excluded_without_inversion:
  assumes "\<not> (\<exists>ext. ends_with_extension path ext)"
  shows "\<not> get_file_by_format path (Formats fs) False"
proof -
  have "search_extension path = None"
    using assms search_extension_None_iff[of path] by blast
  then show ?thesis by (simp add: get_file_by_format_def)
qed

text \<open>
  Claim C2. The half of the claim with inversion on is where the code departs from the
  claim and from its own prompt, which offers inversion as ``select all files except those
  with the selected extension''. \<open>/data/README\<close> has no extension and so is not a file
  with the extension \<open>txt\<close>; with the policy \<open>('txt',)\<close> and inversion on the predicate
  still excludes it, because the \<open>else: return False\<close> of \<open>get_file_by_format\<close> is reached
  before \<open>inversion\<close> is read. With the policy \<open>'all'\<close> the same file is selected.
\<close>

theorem extensionless_file_excluded_under_inversion:
  "\<not> has_extension (ustr ''/data/README'') \<and>
   search_extension (ustr ''/data/README'') = None \<and>
   get_file_by_format (ustr ''/data/README'') (Formats [ustr ''txt'']) True = False \<and>
   get_file_by_format (ustr ''/data/README'') All False = True"
proof -
  have "\<not> has_extension (ustr ''/data/README'')"
    using has_extension_dot[of "ustr ''/data/README''"] by auto
  moreover have "search_extension (ustr ''/data/README'') = None" by simp
  moreover have "get_file_by_format (ustr ''/data/README'') (Formats [ustr ''txt'']) True = False"
    by (simp add: get_file_by_format_def)
  moreover have "get_file_by_format (ustr ''/data/README'') All False = True"
    by (simp add: get_file_by_format_def)
  ultimately show ?thesis by simp
qed





section \<open>Reconciler accounting\<close>

lemma sum_list_filter_split:
  "sum_list (map (g :: 'a \<Rightarrow> int) xs) =
     sum_list (map g (filter P xs)) + sum_list (map g (filter (\<lambda>x. \<not> P x) xs))"
  by (induction xs) simp_all

lemma probe_files_eq:
  "probe_files os fs (d, nd, tf, ts) =
     (d @ filter (probe_fails os) fs,
      nd @ filter (\<lambda>f. \<not> probe_fails os f) fs,
      tf - int (length (filter (\<lambda>f. \<not> probe_fails os f) fs)),
      ts - sum_list (map (size_of os) (filter (\<lambda>f. \<not> probe_fails os f) fs)))"
proof (induction fs arbitrary: d nd tf ts)
  case Nil
  show ?case by simp
next
  case (Cons f fs)
  show ?case
  proof (cases "stat_size os f")
    case None
    then show ?thesis by (simp add: Cons.IH getsize_def probe_fails_def)
  next
    case (Some n)
    then show ?thesis by (simp add: Cons.IH getsize_def probe_fails_def size_of_def)
  qed
qed

text \<open>
  Claim C3. \<open>scanned\<close> gives each targeted path the size the scan counted for it, so that
  the scanned total is the sum over the list. If every path that is still present has
  the size it had at the scan, the reconciliation classifies a path as deleted exactly
  when probing its size fails, returns the number of deleted paths as the adjusted file
  count and the sum of the deleted paths' scanned sizes as the adjusted total size.
\<close>

theorem reconciler_accounting:
  assumes "total_size = sum_list (map scanned list_of_files)"
    and "\<forall>f\<in>set list_of_files. \<not> probe_fails os f \<longrightarrow> size_of os f = scanned f"
  shows "get_information_about_deleted_files os list_of_files total_size =
     (filter (probe_fails os) list_of_files,
      filter (\<lambda>f. \<not> probe_fails os f) list_of_files,
      int (length (filter (probe_fails os) list_of_files)),
      sum_list (map scanned (filter (probe_fails os) list_of_files)))"
proof -
  let ?P = "filter (\<lambda>f. \<not> probe_fails os f) list_of_files"
  let ?D = "filter (probe_fails os) list_of_files"
  have len: "int (length list_of_files) - int (length ?P) = int (length ?D)"
    using sum_length_filter_compl[of "probe_fails os" list_of_files] by simp
  have same: "map (size_of os) ?P = map scanned ?P"
    using assms(2) by (simp add: map_eq_conv)
  have "sum_list (map scanned list_of_files) =
      sum_list (map scanned ?D) + sum_list (map scanned ?P)"
    by (rule sum_list_filter_split)
  then have sz: "total_size - sum_list (map (size_of os) ?P) = sum_list (map scanned ?D)"
    unfolding same assms(1) by simp
  show ?thesis
    by (simp add: get_information_about_deleted_files_def probe_files_eq len sz)
qed

lemma scan_total_is_sum_of_sizes:
  assumes "get_all_files_windows os walked ff iv fbs s = Inr (tot, fas, paths)"
  shows "tot = sum_list (map (size_of os) paths)"
  using assms by (auto simp: get_all_files_windows_eq add_selected_def)

theorem reconciler_accounting_witness:
  "get_information_about_deleted_files
     \<lparr>path_join = posix_join, stat_size = (\<lambda>p. if p = ustr ''/d/b.txt'' then Some 20 else None)\<rparr>
     [ustr ''/d/a.txt'', ustr ''/d/b.txt''] 30
   = ([ustr ''/d/a.txt''], [ustr ''/d/b.txt''], 1, 10)"
  using reconciler_accounting
    [of 30 "\<lambda>p. if p = ustr ''/d/a.txt'' then 10 else 20" "[ustr ''/d/a.txt'', ustr ''/d/b.txt'']"
        "\<lparr>path_join = posix_join, stat_size = (\<lambda>p. if p = ustr ''/d/b.txt'' then Some 20 else None)\<rparr>"]
  by (simp add: probe_fails_def getsize_def size_of_def)

section \<open>The persisted settings and history\<close>

text \<open>
  Claim C7 holds of the decodes that \<open>get_json_content\<close> and the two checks handle, but
  not of every persisted input. The history file below decodes to a dictionary with the
  five keys; its first date has a year that does not fit a C \<open>int\<close>, so
  \<open>date(year, month, day)\<close> raises \<open>OverflowError\<close>, which the
  \<open>except (ValueError, TypeError)\<close> of \<open>is_valid_dates\<close> does not catch: \<open>check_data\<close>
  raises instead of returning the defaults, and so does the history update that called
  it. A file that is not text raises out of \<open>get_json_content\<close> in the same way.
\<close>

theorem check_data_raises_overflow_error:
  "get_json_content (Decoded (JDict
       [(ustr ''date_of_first_deletion'', JStr (ustr ''2147483648-01-01'')),
        (ustr ''date_of_last_deletion'', JStr (ustr ''2024-01-01'')),
        (ustr ''number_of_deletions'', JInt 0),
        (ustr ''number_of_deleted_files'', JInt 0),
        (ustr ''total_weight_of_deleted_files'', JInt 0)])) default_data
     = Inr ([(ustr ''date_of_first_deletion'', JStr (ustr ''2147483648-01-01'')),
             (ustr ''date_of_last_deletion'', JStr (ustr ''2024-01-01'')),
             (ustr ''number_of_deletions'', JInt 0),
             (ustr ''number_of_deleted_files'', JInt 0),
             (ustr ''total_weight_of_deleted_files'', JInt 0)], default_data) \<and>
   check_data (Date 2026 11 4)
       [(ustr ''date_of_first_deletion'', JStr (ustr ''2147483648-01-01'')),
        (ustr ''date_of_last_deletion'', JStr (ustr ''2024-01-01'')),
        (ustr ''number_of_deletions'', JInt 0),
        (ustr ''number_of_deleted_files'', JInt 0),
        (ustr ''total_weight_of_deleted_files'', JInt 0)] default_data
     = Inl OverflowError \<and>
   save_and_display_cleanup_info
       \<lparr>clock_of = \<lparr>today_check = Date 2026 11 4, today_first = Date 2026 11 4,
            today_last = Date 2026 11 4, today_diff = Date 2026 11 4,
            today_final = Date 2026 11 4\<rparr>,
        mkdir_error = None,
        data_file = Decoded (JDict
          [(ustr ''date_of_first_deletion'', JStr (ustr ''2147483648-01-01'')),
           (ustr ''date_of_last_deletion'', JStr (ustr ''2024-01-01'')),
           (ustr ''number_of_deletions'', JInt 0),
           (ustr ''number_of_deleted_files'', JInt 0),
           (ustr ''total_weight_of_deleted_files'', JInt 0)]),
        write_error = None\<rparr> 1 10 False
     = Inl OverflowError \<and>
   get_json_content (Raises UnicodeDecodeError) default_settings = Inl UnicodeDecodeError"
  by code_simp

text \<open>
  Claim C6 holds of the dates and of the two counts, but the total weight can decrease.
  The history holds a total weight of 100. A pass targets the file \<open>/d/a.txt\<close>, scanned
  with 10 bytes; the file is not deleted and has grown to 50 bytes when the reconciler
  probes it. \<open>get_information_about_deleted_files\<close> takes the 50 bytes it reads off the
  scanned total, the adjusted total is \<open>-40\<close>, and the update persists a total weight of
  60. The user declines the export of the list of files.
\<close>

theorem total_weight_decreases_when_a_kept_file_grew:
  "get_information_about_deleted_files
       \<lparr>path_join = posix_join,
        stat_size = (\<lambda>p. if p = ustr ''/d/a.txt'' then Some 50 else None)\<rparr>
       [ustr ''/d/a.txt''] 10
     = ([], [ustr ''/d/a.txt''], 0, - 40) \<and>
   post_cleanup_actions True
       \<lparr>path_join = posix_join,
        stat_size = (\<lambda>p. if p = ustr ''/d/a.txt'' then Some 50 else None)\<rparr>
       \<lparr>clock_of = \<lparr>today_check = Date 2026 11 4, today_first = Date 2026 11 4,
            today_last = Date 2026 11 4, today_diff = Date 2026 11 4,
            today_final = Date 2026 11 4\<rparr>,
        mkdir_error = None,
        data_file = Decoded (JDict
          [(ustr ''date_of_first_deletion'', JStr (ustr ''2026-01-01'')),
           (ustr ''date_of_last_deletion'', JStr (ustr ''2026-10-01'')),
           (ustr ''number_of_deletions'', JInt 3),
           (ustr ''number_of_deleted_files'', JInt 7),
           (ustr ''total_weight_of_deleted_files'', JInt 100)]),
        write_error = None\<rparr>
       \<lparr>export_mkdir = None, export_error = None\<rparr>
       [ustr ''no''] [ustr ''/d/a.txt''] 10 False
     = ([HistoryUpdateCalled],
        Inr (Decoded (JDict
          [(ustr ''date_of_first_deletion'', JStr (ustr ''2026-01-01'')),
           (ustr ''date_of_last_deletion'', JStr (ustr ''2026-11-04'')),
           (ustr ''number_of_deletions'', JInt 4),
           (ustr ''number_of_deleted_files'', JInt 7),
           (ustr ''total_weight_of_deleted_files'', JInt 60)]), []))"
  by code_simp

end
